theory Spec2Isabelle
  imports Complex_Main "HOL-Library.Sublist"
begin

section \<open>JavaScript values that reach the client\<close>

text \<open>
  The client (\<^verbatim>\<open>paws.js\<close> and its proxy-capable twin \<^verbatim>\<open>paws-proxy.js\<close>) only handles
  values that come out of JSON: response bodies, quest objects, the decoded token payload.
  They are modelled by one datatype. An object is an association list in source order
  (a later binding of a key shadows an earlier one, as in \<^verbatim>\<open>JSON.parse\<close>).
  Numbers are exact rationals: rounding to binary64 is not modelled, so the model agrees
  with the engine on every number that binary64 holds exactly (all integers of
  magnitude below \<open>2^53\<close>, hence every epoch-seconds value).
  Strings are byte strings: a JavaScript string stands for its UTF-8 encoding.
\<close>

datatype jsval =
    JUndefined
  | JNull
  | JBool bool
  | JNum rat
  | JStr string
  | JArr "jsval list"
  | JObj "(string \<times> jsval) list"

text \<open>Exceptions that the modelled code can see, each with the data its message carries.\<close>

datatype js_error =
    TypeError
  | SyntaxError
  | InvalidArgumentError
  | AxiosError string
  | FsError string
  | URIError
  | BadProxyStatus jsval
  | ProxyCheckError js_error

text \<open>ToBoolean.\<close>

fun truthy :: "jsval \<Rightarrow> bool" where
  "truthy JUndefined = False"
| "truthy JNull = False"
| "truthy (JBool b) = b"
| "truthy (JNum r) = (r \<noteq> 0)"
| "truthy (JStr s) = (s \<noteq> [])"
| "truthy (JArr xs) = True"
| "truthy (JObj kvs) = True"

text \<open>
  \<^verbatim>\<open>v.k\<close> for a property name \<open>k\<close> that is not a built-in member (the source reads
  \<^verbatim>\<open>status data success progress claimed code title _id rewards amount exp\<close> and a few
  more of that kind): reading from \<^verbatim>\<open>undefined\<close> or \<^verbatim>\<open>null\<close> throws a TypeError, an object
  yields its last binding of the key, every other value yields \<^verbatim>\<open>undefined\<close>.
\<close>

fun get_prop :: "jsval \<Rightarrow> string \<Rightarrow> js_error + jsval" where
  "get_prop JUndefined k = Inl TypeError"
| "get_prop JNull k = Inl TypeError"
| "get_prop (JObj kvs) k = Inr (case map_of (rev kvs) k of None \<Rightarrow> JUndefined | Some v \<Rightarrow> v)"
| "get_prop v k = Inr JUndefined"

text \<open>\<^verbatim>\<open>v[n]\<close> for a literal index: an element of an array, a character of a string,
  the property named by the decimal digits of \<open>n\<close> of an object.\<close>

function decimal :: "nat \<Rightarrow> string" where
  "decimal n =
     (if n < 10 then [char_of (48 + n)] else decimal (n div 10) @ [char_of (48 + n mod 10)])"
  by pat_completeness auto
termination
  by (relation "measure id") auto

fun get_index :: "jsval \<Rightarrow> nat \<Rightarrow> js_error + jsval" where
  "get_index JUndefined n = Inl TypeError"
| "get_index JNull n = Inl TypeError"
| "get_index (JArr xs) n = Inr (if n < length xs then xs ! n else JUndefined)"
| "get_index (JStr s) n = Inr (if n < length s then JStr [s ! n] else JUndefined)"
| "get_index (JObj kvs) n = get_prop (JObj kvs) (decimal n)"
| "get_index v n = Inr JUndefined"

text \<open>Sequencing of computations that may throw.\<close>

definition bind_e :: "js_error + 'a \<Rightarrow> ('a \<Rightarrow> js_error + 'b) \<Rightarrow> js_error + 'b" where
  "bind_e m f = (case m of Inl e \<Rightarrow> Inl e | Inr v \<Rightarrow> f v)"

section \<open>The world: requests, pauses, console lines, the token file\<close>

record config =
  http_method :: string
  url :: string
  authorization :: "(string \<times> jsval) option"
  data :: jsval
  httpsAgent :: "string option"

datatype http_outcome = Responds jsval | Throws js_error

datatype level = Info | Success | Custom | Error | Warning

text \<open>\<^verbatim>\<open>error.message\<close> of a caught exception, or a literal message.\<close>

datatype errmsg = MessageOf js_error | Literal string

text \<open>One constructor for each \<^verbatim>\<open>this.log\<close> line of the source, holding the interpolated
  values instead of the rendered text.\<close>

datatype logmsg =
    RetryNotice nat nat errmsg nat
  | QuestInProgress jsval
  | NotQualified jsval
  | TaskDone jsval jsval
  | TaskListError errmsg
  | ProcessingTask jsval
  | CompleteTaskError jsval errmsg
  | ClaimTaskError jsval errmsg
  | ProcessTaskError errmsg
  | ChristmasListError errmsg
  | ProcessingChristmas jsval
  | ChristmasClaimed jsval
  | ProcessChristmasError errmsg
  | SavedToken string
  | SaveTokenError errmsg
  | ReadWalletError errmsg
  | ReadProxyError errmsg
  | ReadTokenError errmsg
  | WalletCountMismatch nat nat
  | ProxyCountMismatch nat nat
  | Banner
  | NeedNewToken string
  | UseExistingToken string
  | Balance jsval
  | WalletLinked jsval
  | WalletNotLinked
  | WalletLinkDone jsval
  | WalletLinkError errmsg
  | LoginFailed errmsg
  | UserInfoError errmsg
  | CheckingMission
  | CheckingChristmas
  | ProxyFailure nat errmsg
  | TopLevelError errmsg
  | EmptyLine

datatype event =
    Request config
  | Wait nat
  | Log level logmsg
  | AccountHeader nat jsval jsval
  | CountdownLine nat
  | Prompt nat
  | WriteAttempt

text \<open>\<open>token_file\<close> is what the client has written to \<^verbatim>\<open>token.json\<close> in this run, if
  anything.\<close>

record world =
  events :: "event list"
  token_file :: "(string \<rightharpoonup> jsval) option"

datatype text_file = Absent | Unreadable js_error | Content string

text \<open>\<^verbatim>\<open>token.json\<close> as the client finds it at startup. The client itself writes the
  file as a JSON object, and the store is only ever used as a dictionary.\<close>

datatype token_json = NoTokenFile | TokenFileUnreadable js_error | TokenFileNotJSON
  | TokenFileObject "(string \<times> jsval) list"

text \<open>
  What the client cannot decide: the outcome of the \<open>n\<close>-th HTTP call, whether a proxy
  URI makes a proxy agent, whether the \<open>n\<close>-th write of the token file fails, the input
  files, the answers typed at the prompts, the clock (milliseconds, read after so many
  events), and two platform conversions that no property below depends on: \<^verbatim>\<open>String(v)\<close>
  in a template literal or a property key, and \<^verbatim>\<open>decodeURIComponent\<close>.
\<close>

record env =
  axios :: "nat \<Rightarrow> config \<Rightarrow> http_outcome"
  proxyAgent :: "string \<Rightarrow> js_error option"
  writeFile :: "nat \<Rightarrow> js_error option"
  wallet_txt :: text_file
  data_txt :: text_file
  proxy_txt :: text_file
  token_store :: token_json
  answers :: "nat \<Rightarrow> string"
  clock :: "nat \<Rightarrow> int"
  toStr :: "jsval \<Rightarrow> string"
  decodeURIComponent :: "string \<Rightarrow> js_error + string"

fun is_request :: "event \<Rightarrow> bool" where
  "is_request (Request c) = True"
| "is_request e = False"

definition n_requests :: "world \<Rightarrow> nat" where
  "n_requests w = length (filter is_request (events w))"

definition n_writes :: "world \<Rightarrow> nat" where
  "n_writes w = length (filter (\<lambda>e. e = WriteAttempt) (events w))"

definition n_prompts :: "world \<Rightarrow> nat" where
  "n_prompts w = length (filter (\<lambda>e. case e of Prompt n \<Rightarrow> True | _ \<Rightarrow> False) (events w))"

definition emit :: "event \<Rightarrow> world \<Rightarrow> world" where
  "emit e w = w\<lparr>events := events w @ [e]\<rparr>"

definition log_line :: "level \<Rightarrow> logmsg \<Rightarrow> world \<Rightarrow> world" where
  "log_line l m w = emit (Log l m) w"

text \<open>Several events in a row, for stating what a call adds to the world.\<close>

definition emits :: "event list \<Rightarrow> world \<Rightarrow> world" where
  "emits es w = w\<lparr>events := events w @ es\<rparr>"

text \<open>The HTTP calls among some events, in order.\<close>

fun requests_of :: "event list \<Rightarrow> config list" where
  "requests_of [] = []"
| "requests_of (Request cfg # es) = cfg # requests_of es"
| "requests_of (e # es) = requests_of es"

section \<open>makeRequest\<close>

text \<open>
  One pass through the \<^verbatim>\<open>try\<close> block of \<^verbatim>\<open>makeRequest\<close>. In \<^verbatim>\<open>paws.js\<close> it is
  \<^verbatim>\<open>await axios(config)\<close>; \<^verbatim>\<open>paws-proxy.js\<close> first attaches a proxy agent when a proxy
  is given, and an exception from the agent's constructor is caught like one from axios.
  \<^verbatim>\<open>paws.js\<close> is the case \<open>proxy = None\<close>.
\<close>

definition attach_agent :: "env \<Rightarrow> config \<Rightarrow> string option \<Rightarrow> js_error + config" where
  "attach_agent en cfg proxy =
     (case proxy of
        None \<Rightarrow> Inr cfg
      | Some p \<Rightarrow>
          if p = [] then Inr cfg
          else (case proxyAgent en p of
                  Some err \<Rightarrow> Inl err
                | None \<Rightarrow> Inr (cfg\<lparr>httpsAgent := Some p\<rparr>)))"

definition attempt_once :: "env \<Rightarrow> config \<Rightarrow> string option \<Rightarrow> world \<Rightarrow> http_outcome \<times> world" where
  "attempt_once en cfg proxy w =
     (case attach_agent en cfg proxy of
        Inl err \<Rightarrow> (Throws err, w)
      | Inr cfg' \<Rightarrow> (axios en (n_requests w) cfg', emit (Request cfg') w))"

text \<open>The \<^verbatim>\<open>while (attempt <= maxRetries)\<close> loop. Falling out of the loop (only possible
  with \<open>maxRetries = 0\<close>) returns \<^verbatim>\<open>undefined\<close>.\<close>

function makeRequest_loop ::
  "env \<Rightarrow> config \<Rightarrow> string option \<Rightarrow> nat \<Rightarrow> nat \<Rightarrow> nat \<Rightarrow> world \<Rightarrow> (js_error + jsval) \<times> world"
where
  "makeRequest_loop en cfg proxy maxRetries retryDelay attempt w =
     (if attempt \<le> maxRetries then
        (case attempt_once en cfg proxy w of
           (Responds response, w1) \<Rightarrow> (Inr response, w1)
         | (Throws err, w1) \<Rightarrow>
             if attempt = maxRetries then (Inl err, w1)
             else makeRequest_loop en cfg proxy maxRetries retryDelay (attempt + 1)
                    (emit (Wait retryDelay)
                       (log_line Warning
                          (RetryNotice attempt maxRetries (MessageOf err) retryDelay) w1)))
      else (Inr JUndefined, w))"
  by pat_completeness auto
termination
  by (relation "measure (\<lambda>(en, cfg, proxy, maxRetries, retryDelay, attempt, w).
        Suc maxRetries - attempt)") auto

definition makeRequest ::
  "env \<Rightarrow> config \<Rightarrow> string option \<Rightarrow> nat \<Rightarrow> nat \<Rightarrow> world \<Rightarrow> (js_error + jsval) \<times> world"
where
  "makeRequest en cfg proxy maxRetries retryDelay w =
     makeRequest_loop en cfg proxy maxRetries retryDelay 1 w"

text \<open>Every call in the source leaves the retry parameters at their defaults.\<close>

definition request :: "env \<Rightarrow> config \<Rightarrow> string option \<Rightarrow> world \<Rightarrow> (js_error + jsval) \<times> world" where
  "request en cfg proxy w = makeRequest en cfg proxy 3 5000 w"

section \<open>The quest engine\<close>

text \<open>The objects \<^verbatim>\<open>{ success: true, data }\<close> and \<^verbatim>\<open>{ success: false, error }\<close> that the
  request wrappers return.\<close>

datatype result = Succeeded jsval | Failed errmsg

definition api_request :: "string \<Rightarrow> string \<Rightarrow> jsval \<Rightarrow> jsval \<Rightarrow> config" where
  "api_request m u token d =
     \<lparr>http_method = m, url = u, authorization = Some (''Bearer '', token), data = d,
      httpsAgent = None\<rparr>"

definition quest_body :: "jsval \<Rightarrow> jsval" where
  "quest_body questId = JObj [(''questId'', questId)]"

definition quests_list_url :: string where
  "quests_list_url = ''https://api.paws.community/v1/quests/list''"

definition christmas_list_url :: string where
  "christmas_list_url = ''https://api.paws.community/v1/quests/list?type=christmas''"

definition completed_url :: string where
  "completed_url = ''https://api.paws.community/v1/quests/completed''"

definition claim_url :: string where
  "claim_url = ''https://api.paws.community/v1/quests/claim''"

text \<open>\<^verbatim>\<open>Array.prototype.filter\<close> with a callback that may throw; the first exception ends
  the filtering. On a value that is not an array the method does not exist and the call
  throws a TypeError.\<close>

fun filter_e :: "('a \<Rightarrow> js_error + bool) \<Rightarrow> 'a list \<Rightarrow> js_error + 'a list" where
  "filter_e p [] = Inr []"
| "filter_e p (x # xs) =
     (case p x of
        Inl err \<Rightarrow> Inl err
      | Inr b \<Rightarrow>
          (case filter_e p xs of
             Inl err \<Rightarrow> Inl err
           | Inr ys \<Rightarrow> Inr (if b then x # ys else ys)))"

definition array_filter :: "(jsval \<Rightarrow> js_error + bool) \<Rightarrow> jsval \<Rightarrow> js_error + jsval" where
  "array_filter p v =
     (case v of
        JArr xs \<Rightarrow> (case filter_e p xs of Inl err \<Rightarrow> Inl err | Inr ys \<Rightarrow> Inr (JArr ys))
      | _ \<Rightarrow> Inl TypeError)"

text \<open>The callback \<^verbatim>\<open>quest => !quest.progress.claimed\<close>.\<close>

definition not_claimed :: "jsval \<Rightarrow> js_error + bool" where
  "not_claimed quest =
     bind_e (get_prop quest ''progress'') (\<lambda>progress.
     bind_e (get_prop progress ''claimed'') (\<lambda>claimed.
     Inr (\<not> truthy claimed)))"

definition getQuestsList_body :: "jsval \<Rightarrow> js_error + result" where
  "getQuestsList_body response =
     bind_e (get_prop response ''status'') (\<lambda>status.
       if status \<noteq> JNum 200 then Inr (Failed (Literal ''Failed to get quests list''))
       else
         bind_e (get_prop response ''data'') (\<lambda>body.
         bind_e (get_prop body ''success'') (\<lambda>success.
           if \<not> truthy success then Inr (Failed (Literal ''Failed to get quests list''))
           else
             bind_e (get_prop body ''data'') (\<lambda>quests.
             bind_e (array_filter not_claimed quests) (\<lambda>kept.
             Inr (Succeeded kept))))))"

definition getQuestsList :: "env \<Rightarrow> jsval \<Rightarrow> string option \<Rightarrow> world \<Rightarrow> result \<times> world" where
  "getQuestsList en token proxy w =
     (case request en (api_request ''get'' quests_list_url token JUndefined) proxy w of
        (Inl err, w1) \<Rightarrow> (Failed (MessageOf err), w1)
      | (Inr response, w1) \<Rightarrow>
          (case getQuestsList_body response of
             Inl err \<Rightarrow> (Failed (MessageOf err), w1)
           | Inr r \<Rightarrow> (r, w1)))"

text \<open>
  \<^verbatim>\<open>claimQuest\<close>: any truthy response counts as success; the reward that is reported is
  \<^verbatim>\<open>questData.rewards[0].amount\<close>, read inside the \<^verbatim>\<open>try\<close> block.
\<close>

definition claimQuest ::
  "env \<Rightarrow> jsval \<Rightarrow> jsval \<Rightarrow> jsval \<Rightarrow> string option \<Rightarrow> world \<Rightarrow> result \<times> world" where
  "claimQuest en token questId questData proxy w =
     (case request en (api_request ''post'' claim_url token (quest_body questId)) proxy w of
        (Inl err, w1) \<Rightarrow> (Failed (MessageOf err), w1)
      | (Inr response, w1) \<Rightarrow>
          if truthy response then
            (case bind_e (get_prop questData ''rewards'') (\<lambda>rewards.
                  bind_e (get_index rewards 0) (\<lambda>first.
                  bind_e (get_prop first ''amount'') (\<lambda>reward.
                  bind_e (get_prop questData ''title'') (\<lambda>title.
                  Inr (title, reward))))) of
               Inl err \<Rightarrow> (Failed (MessageOf err), w1)
             | Inr (title, reward) \<Rightarrow>
                 (Succeeded JUndefined, log_line Success (TaskDone title reward) w1))
          else (Failed (Literal ''Failed to claim quest reward''), w1))"

text \<open>The quest object that \<^verbatim>\<open>completeQuest\<close> makes up for its own claim call:
  \<^verbatim>\<open>{ title: `Quest ${questId}`, rewards: [{ amount: 0 }] }\<close>.\<close>

definition placeholder_quest :: "env \<Rightarrow> jsval \<Rightarrow> jsval" where
  "placeholder_quest en questId =
     JObj [(''title'', JStr (''Quest '' @ toStr en questId)),
           (''rewards'', JArr [JObj [(''amount'', JNum 0)]])]"

text \<open>
  \<^verbatim>\<open>completeQuest\<close> returns a result object on three of its paths and nothing
  (\<^verbatim>\<open>undefined\<close>, here \<open>None\<close>) when the body says \<^verbatim>\<open>success: false\<close> on a 200/201
  response. The nested \<^verbatim>\<open>claimQuest\<close> call is made without the proxy argument in both
  files.
\<close>

definition completeQuest ::
  "env \<Rightarrow> jsval \<Rightarrow> jsval \<Rightarrow> string option \<Rightarrow> world \<Rightarrow> result option \<times> world" where
  "completeQuest en token questId proxy w =
     (case request en (api_request ''post'' completed_url token (quest_body questId)) proxy w of
        (Inl err, w1) \<Rightarrow> (Some (Failed (MessageOf err)), w1)
      | (Inr response, w1) \<Rightarrow>
          (case bind_e (get_prop response ''status'') (\<lambda>statusCode.
                bind_e (get_prop response ''data'') (\<lambda>body.
                bind_e (get_prop body ''success'') (\<lambda>success.
                bind_e (get_prop body ''data'') (\<lambda>dat.
                Inr (statusCode, success, dat))))) of
             Inl err \<Rightarrow> (Some (Failed (MessageOf err)), w1)
           | Inr (statusCode, success, dat) \<Rightarrow>
               if statusCode = JNum 200 \<or> statusCode = JNum 201 then
                 if truthy success then (Some (Succeeded dat), w1)
                 else if dat = JBool True then
                   (None,
                    snd (claimQuest en token questId (placeholder_quest en questId) None
                           (log_line Info (QuestInProgress questId) w1)))
                 else if dat = JBool False then
                   (None, log_line Warning (NotQualified questId) w1)
                 else (None, w1)
               else (Some (Failed (Literal ''Unexpected response status'')), w1)))"

text \<open>
  The body of the \<^verbatim>\<open>for (const quest of unclaimedQuests)\<close> loop of \<^verbatim>\<open>processQuests\<close>.
  Reading \<^verbatim>\<open>completeResult.success\<close> when \<^verbatim>\<open>completeQuest\<close> returned nothing throws a
  TypeError, which leaves the loop.
\<close>

fun processQuests_loop ::
  "env \<Rightarrow> jsval \<Rightarrow> string option \<Rightarrow> jsval list \<Rightarrow> world \<Rightarrow> js_error option \<times> world" where
  "processQuests_loop en token proxy [] w = (None, w)"
| "processQuests_loop en token proxy (quest # rest) w =
     (case bind_e (get_prop quest ''title'') (\<lambda>title.
           bind_e (get_prop quest ''_id'') (\<lambda>qid. Inr (title, qid))) of
        Inl err \<Rightarrow> (Some err, w)
      | Inr (title, qid) \<Rightarrow>
          (case completeQuest en token qid proxy (log_line Info (ProcessingTask title) w) of
             (None, w2) \<Rightarrow> (Some TypeError, w2)
           | (Some (Failed err), w2) \<Rightarrow>
               processQuests_loop en token proxy rest
                 (log_line Error (CompleteTaskError title err) w2)
           | (Some (Succeeded d), w2) \<Rightarrow>
               (case claimQuest en token qid quest proxy w2 of
                  (Failed err, w3) \<Rightarrow>
                    processQuests_loop en token proxy rest
                      (log_line Error (ClaimTaskError title err) w3)
                | (Succeeded d', w3) \<Rightarrow>
                    processQuests_loop en token proxy rest (emit (Wait 2000) w3))))"

text \<open>\<^verbatim>\<open>for ... of\<close> over a value: only an array (of the values modelled here, also a
  string, which no path produces) can be iterated.\<close>

definition processQuests :: "env \<Rightarrow> jsval \<Rightarrow> string option \<Rightarrow> world \<Rightarrow> world" where
  "processQuests en token proxy w =
     (case getQuestsList en token proxy w of
        (Failed err, w1) \<Rightarrow> log_line Error (TaskListError err) w1
      | (Succeeded unclaimedQuests, w1) \<Rightarrow>
          (case (case unclaimedQuests of
                   JArr quests \<Rightarrow> processQuests_loop en token proxy quests w1
                 | _ \<Rightarrow> (Some TypeError, w1)) of
             (None, w2) \<Rightarrow> w2
           | (Some err, w2) \<Rightarrow> log_line Error (ProcessTaskError (MessageOf err)) w2))"

section \<open>Seasonal quests\<close>

text \<open>
  The characters that \<^verbatim>\<open>parseInt\<close> skips at the start of its argument (WhiteSpace and
  LineTerminator of ECMAScript), each as its UTF-8 bytes: TAB, LF, VT, FF, CR, SP, U+00A0,
  U+1680, U+2000 to U+200A, U+2028, U+2029, U+202F, U+205F, U+3000, U+FEFF.
\<close>

definition js_whitespace :: "string list" where
  "js_whitespace =
     [[CHR 0x09], [CHR 0x0A], [CHR 0x0B], [CHR 0x0C], [CHR 0x0D], [CHR 0x20],
      [CHR 0xC2, CHR 0xA0], [CHR 0xE1, CHR 0x9A, CHR 0x80],
      [CHR 0xE2, CHR 0x80, CHR 0x80], [CHR 0xE2, CHR 0x80, CHR 0x81],
      [CHR 0xE2, CHR 0x80, CHR 0x82], [CHR 0xE2, CHR 0x80, CHR 0x83],
      [CHR 0xE2, CHR 0x80, CHR 0x84], [CHR 0xE2, CHR 0x80, CHR 0x85],
      [CHR 0xE2, CHR 0x80, CHR 0x86], [CHR 0xE2, CHR 0x80, CHR 0x87],
      [CHR 0xE2, CHR 0x80, CHR 0x88], [CHR 0xE2, CHR 0x80, CHR 0x89],
      [CHR 0xE2, CHR 0x80, CHR 0x8A], [CHR 0xE2, CHR 0x80, CHR 0xA8],
      [CHR 0xE2, CHR 0x80, CHR 0xA9], [CHR 0xE2, CHR 0x80, CHR 0xAF],
      [CHR 0xE2, CHR 0x81, CHR 0x9F], [CHR 0xE3, CHR 0x80, CHR 0x80],
      [CHR 0xEF, CHR 0xBB, CHR 0xBF]]"

definition ws_len :: "string \<Rightarrow> nat" where
  "ws_len s = (case find (\<lambda>p. prefix p s) js_whitespace of None \<Rightarrow> 0 | Some p \<Rightarrow> length p)"

function trimStart :: "string \<Rightarrow> string" where
  "trimStart s =
     (if ws_len s = 0 \<or> length s < ws_len s then s else trimStart (drop (ws_len s) s))"
  by pat_completeness auto
termination
  by (relation "measure length") auto

definition digit_value :: "char \<Rightarrow> nat option" where
  "digit_value c =
     (let n = (of_char c :: nat) in
      if 48 \<le> n \<and> n \<le> 57 then Some (n - 48)
      else if 97 \<le> n \<and> n \<le> 122 then Some (n - 87)
      else if 65 \<le> n \<and> n \<le> 90 then Some (n - 55)
      else None)"

definition is_radix_digit :: "nat \<Rightarrow> char \<Rightarrow> bool" where
  "is_radix_digit radix c = (case digit_value c of None \<Rightarrow> False | Some d \<Rightarrow> d < radix)"

definition digits_value :: "nat \<Rightarrow> string \<Rightarrow> nat" where
  "digits_value radix ds =
     foldl (\<lambda>acc c. acc * radix + (case digit_value c of None \<Rightarrow> 0 | Some d \<Rightarrow> d)) 0 ds"

text \<open>
  \<^verbatim>\<open>parseInt(string)\<close> with no radix: skip leading whitespace, take a sign, take a
  \<^verbatim>\<open>0x\<close> or \<^verbatim>\<open>0X\<close> prefix as radix 16 and otherwise radix 10, read the longest run of
  digits; no digit gives \<^verbatim>\<open>NaN\<close> (here \<open>None\<close>). The mathematical value is kept, which
  compares with a small integer as the rounded one does.
\<close>

definition parseInt :: "string \<Rightarrow> int option" where
  "parseInt str =
     (let s = trimStart str;
          negative = (case s of [] \<Rightarrow> False | c # r \<Rightarrow> c = CHR ''-'');
          s1 = (case s of [] \<Rightarrow> s | c # r \<Rightarrow> if c = CHR ''-'' \<or> c = CHR ''+'' then r else s);
          hex = (prefix ''0x'' s1 \<or> prefix ''0X'' s1);
          radix = (if hex then 16 else 10);
          s2 = (if hex then drop 2 s1 else s1);
          z = takeWhile (is_radix_digit radix) s2
      in if z = [] then None
         else Some ((if negative then - 1 else 1) * int (digits_value radix z)))"

text \<open>\<^verbatim>\<open>code.startsWith(p)\<close> and \<^verbatim>\<open>code.slice(n)\<close>: only a string has these methods
  (an array has \<^verbatim>\<open>slice\<close>, but \<^verbatim>\<open>startsWith\<close> is called first). \<^verbatim>\<open>slice\<close> counts UTF-16
  code units and \<open>drop\<close> counts bytes; the two agree where the source calls it, behind a
  string that starts with nine ASCII characters.\<close>

definition startsWith :: "jsval \<Rightarrow> string \<Rightarrow> js_error + bool" where
  "startsWith v p = (case v of JStr s \<Rightarrow> Inr (prefix p s) | _ \<Rightarrow> Inl TypeError)"

definition slice :: "jsval \<Rightarrow> nat \<Rightarrow> js_error + string" where
  "slice v n = (case v of JStr s \<Rightarrow> Inr (drop n s) | _ \<Rightarrow> Inl TypeError)"

text \<open>\<^verbatim>\<open>parseInt(quest.code.slice(9)) <= 6\<close>: a comparison with \<^verbatim>\<open>NaN\<close> is false.\<close>

definition at_most_6 :: "int option \<Rightarrow> bool" where
  "at_most_6 v = (case v of None \<Rightarrow> False | Some n \<Rightarrow> n \<le> 6)"

text \<open>The callback of the seasonal filter; \<^verbatim>\<open>&&\<close> evaluates left to right and stops at
  the first false operand.\<close>

definition christmas_filter :: "jsval \<Rightarrow> js_error + bool" where
  "christmas_filter quest =
     bind_e (get_prop quest ''code'') (\<lambda>code.
     bind_e (startsWith code ''christmas'') (\<lambda>starts.
       if \<not> starts then Inr False
       else
         bind_e (slice code 9) (\<lambda>suffix.
           if \<not> at_most_6 (parseInt suffix) then Inr False
           else
             bind_e (get_prop quest ''progress'') (\<lambda>progress.
             bind_e (get_prop progress ''claimed'') (\<lambda>claimed.
               if truthy claimed then Inr False
               else
                 bind_e (get_prop progress ''status'') (\<lambda>status.
                 Inr (status \<noteq> JStr ''finished'')))))))"

definition getChristmasQuests_body :: "jsval \<Rightarrow> js_error + result" where
  "getChristmasQuests_body response =
     bind_e (get_prop response ''status'') (\<lambda>status.
       if status \<noteq> JNum 200
       then Inr (Failed (Literal ''Failed to get Christmas quests list''))
       else
         bind_e (get_prop response ''data'') (\<lambda>body.
         bind_e (get_prop body ''success'') (\<lambda>success.
           if \<not> truthy success
           then Inr (Failed (Literal ''Failed to get Christmas quests list''))
           else
             bind_e (get_prop body ''data'') (\<lambda>quests.
             bind_e (array_filter christmas_filter quests) (\<lambda>kept.
             Inr (Succeeded kept))))))"

definition getChristmasQuests :: "env \<Rightarrow> jsval \<Rightarrow> string option \<Rightarrow> world \<Rightarrow> result \<times> world" where
  "getChristmasQuests en token proxy w =
     (case request en (api_request ''get'' christmas_list_url token JUndefined) proxy w of
        (Inl err, w1) \<Rightarrow> (Failed (MessageOf err), w1)
      | (Inr response, w1) \<Rightarrow>
          (case getChristmasQuests_body response of
             Inl err \<Rightarrow> (Failed (MessageOf err), w1)
           | Inr r \<Rightarrow> (r, w1)))"

text \<open>The loop of \<^verbatim>\<open>processChristmasQuests\<close>: it calls \<^verbatim>\<open>makeRequest\<close> directly, so an
  exhausted retry budget throws out of the loop.\<close>

fun processChristmasQuests_loop ::
  "env \<Rightarrow> jsval \<Rightarrow> string option \<Rightarrow> jsval list \<Rightarrow> world \<Rightarrow> js_error option \<times> world" where
  "processChristmasQuests_loop en token proxy [] w = (None, w)"
| "processChristmasQuests_loop en token proxy (quest # rest) w =
     (case bind_e (get_prop quest ''title'') (\<lambda>title.
           bind_e (get_prop quest ''_id'') (\<lambda>qid. Inr (title, qid))) of
        Inl err \<Rightarrow> (Some err, w)
      | Inr (title, qid) \<Rightarrow>
          (case request en (api_request ''post'' completed_url token (quest_body qid)) proxy
                  (log_line Info (ProcessingChristmas title) w) of
             (Inl err, w1) \<Rightarrow> (Some err, w1)
           | (Inr completeResult, w1) \<Rightarrow>
               (case get_prop completeResult ''status'' of
                  Inl err \<Rightarrow> (Some err, w1)
                | Inr status \<Rightarrow>
                    if status = JNum 200 \<or> status = JNum 201 then
                      (case request en (api_request ''post'' claim_url token (quest_body qid))
                              proxy w1 of
                         (Inl err, w2) \<Rightarrow> (Some err, w2)
                       | (Inr claimResult, w2) \<Rightarrow>
                           (case (if \<not> truthy claimResult then Inr None
                                  else
                                    bind_e (get_prop claimResult ''data'') (\<lambda>body.
                                    bind_e (get_prop body ''success'') (\<lambda>success.
                                      if \<not> truthy success then Inr None
                                      else
                                        bind_e (get_prop body ''data'') (\<lambda>d.
                                          if \<not> truthy d then Inr None
                                          else
                                            bind_e (get_prop d ''amount'') (\<lambda>amount.
                                            Inr (if amount \<noteq> JUndefined then Some amount
                                                 else None)))))) of
                              Inl err \<Rightarrow> (Some err, w2)
                            | Inr None \<Rightarrow>
                                processChristmasQuests_loop en token proxy rest
                                  (emit (Wait 3000) w2)
                            | Inr (Some amount) \<Rightarrow>
                                processChristmasQuests_loop en token proxy rest
                                  (emit (Wait 3000)
                                     (log_line Success (ChristmasClaimed amount) w2))))
                    else processChristmasQuests_loop en token proxy rest
                           (emit (Wait 3000) w1))))"

definition processChristmasQuests :: "env \<Rightarrow> jsval \<Rightarrow> string option \<Rightarrow> world \<Rightarrow> world" where
  "processChristmasQuests en token proxy w =
     (case getChristmasQuests en token proxy w of
        (Failed err, w1) \<Rightarrow> log_line Error (ChristmasListError err) w1
      | (Succeeded christmasQuests, w1) \<Rightarrow>
          (case (case christmasQuests of
                   JArr quests \<Rightarrow> processChristmasQuests_loop en token proxy quests w1
                 | _ \<Rightarrow> (Some TypeError, w1)) of
             (None, w2) \<Rightarrow> w2
           | (Some err, w2) \<Rightarrow> log_line Error (ProcessChristmasError (MessageOf err)) w2))"

section \<open>Token expiry\<close>

subsection \<open>Buffer.from(payload, 'base64').toString()\<close>

text \<open>
  Node's base64 decoder is forgiving: it reads the standard and the URL-safe alphabet,
  skips every other character, stops at the first \<^verbatim>\<open>=\<close>, and never throws on a string.
  A trailing group of two or three characters gives one or two bytes. The token is a
  string of ASCII characters, as a bearer token is.
\<close>

definition unbase64 :: "char \<Rightarrow> nat option" where
  "unbase64 c =
     (let n = (of_char c :: nat) in
      if 65 \<le> n \<and> n \<le> 90 then Some (n - 65)
      else if 97 \<le> n \<and> n \<le> 122 then Some (n - 71)
      else if 48 \<le> n \<and> n \<le> 57 then Some (n + 4)
      else if c = CHR ''+'' \<or> c = CHR ''-'' then Some 62
      else if c = CHR ''/'' \<or> c = CHR ''_'' then Some 63
      else None)"

fun sextets_bytes :: "nat list \<Rightarrow> string" where
  "sextets_bytes (a # b # c # d # rest) =
     char_of (a * 4 + b div 16) # char_of ((b mod 16) * 16 + c div 4)
       # char_of ((c mod 4) * 64 + d) # sextets_bytes rest"
| "sextets_bytes [a, b, c] = [char_of (a * 4 + b div 16), char_of ((b mod 16) * 16 + c div 4)]"
| "sextets_bytes [a, b] = [char_of (a * 4 + b div 16)]"
| "sextets_bytes sx = []"

text \<open>The decoded bytes are the model's string (a string stands for its UTF-8 bytes).
  Where the bytes are not UTF-8, Node puts U+FFFD; that changes neither whether the text
  is JSON nor which keys equal \<^verbatim>\<open>exp\<close>.\<close>

definition base64_toString :: "string \<Rightarrow> string" where
  "base64_toString payload =
     sextets_bytes (List.map_filter unbase64 (takeWhile (\<lambda>c. c \<noteq> CHR ''='') payload))"

subsection \<open>JSON.parse\<close>

datatype token = TLBrace | TRBrace | TLBracket | TRBracket | TColon | TComma | TValue jsval

definition json_ws :: "char \<Rightarrow> bool" where
  "json_ws c = (c = CHR 0x20 \<or> c = CHR 0x09 \<or> c = CHR 0x0A \<or> c = CHR 0x0D)"

definition is_digit :: "char \<Rightarrow> bool" where
  "is_digit c = is_radix_digit 10 c"

definition is_hex :: "char \<Rightarrow> bool" where
  "is_hex c = is_radix_digit 16 c"

text \<open>The position of the quote that closes a string literal, in the text after the
  opening quote.\<close>

fun string_extent :: "string \<Rightarrow> nat option" where
  "string_extent [] = None"
| "string_extent [c] = (if c = CHR 0x22 then Some 0 else None)"
| "string_extent (c # d # cs) =
     (if c = CHR 0x22 then Some 0
      else if c = CHR 0x5C then map_option (\<lambda>n. n + 2) (string_extent cs)
      else map_option Suc (string_extent (d # cs)))"

definition simple_escape :: "char \<Rightarrow> char option" where
  "simple_escape e =
     (if e = CHR 0x22 \<or> e = CHR 0x5C \<or> e = CHR ''/'' then Some e
      else if e = CHR ''b'' then Some (CHR 0x08)
      else if e = CHR ''f'' then Some (CHR 0x0C)
      else if e = CHR ''n'' then Some (CHR 0x0A)
      else if e = CHR ''r'' then Some (CHR 0x0D)
      else if e = CHR ''t'' then Some (CHR 0x09)
      else None)"

text \<open>The UTF-8 bytes of one UTF-16 code unit.\<close>

definition utf8 :: "nat \<Rightarrow> string" where
  "utf8 n =
     (if n < 128 then [char_of n]
      else if n < 2048 then [char_of (192 + n div 64), char_of (128 + n mod 64)]
      else [char_of (224 + n div 4096), char_of (128 + (n div 64) mod 64),
            char_of (128 + n mod 64)])"

text \<open>The characters of a string literal: escapes are resolved, a control character or a
  broken escape makes the text invalid.\<close>

fun unescape :: "string \<Rightarrow> string option" where
  "unescape [] = Some []"
| "unescape (c # cs) =
     (if c = CHR 0x5C then
        (case cs of
           [] \<Rightarrow> None
         | e # r \<Rightarrow>
             if e = CHR ''u'' then
               (if 4 \<le> length r \<and> list_all is_hex (take 4 r)
                then map_option ((@) (utf8 (digits_value 16 (take 4 r)))) (unescape (drop 4 r))
                else None)
             else (case simple_escape e of
                     None \<Rightarrow> None
                   | Some ch \<Rightarrow> map_option ((#) ch) (unescape r)))
      else if (of_char c :: nat) < 32 then None
      else map_option ((#) c) (unescape cs))"

text \<open>A number literal at the head of the text: its value and how many characters it
  takes. The grammar is \<^verbatim>\<open>-? (0 | [1-9][0-9]*) (. [0-9]+)? ([eE] [+-]? [0-9]+)?\<close>.\<close>

definition lex_number :: "string \<Rightarrow> (rat \<times> nat) option" where
  "lex_number s =
     (let negative = (case s of [] \<Rightarrow> False | c # r \<Rightarrow> c = CHR ''-'');
          s1 = (if negative then tl s else s);
          ip = takeWhile is_digit s1;
          s2 = drop (length ip) s1;
          has_frac = (case s2 of [] \<Rightarrow> False | c # r \<Rightarrow> c = CHR ''.'');
          fp = (if has_frac then takeWhile is_digit (tl s2) else []);
          s3 = (if has_frac then drop (Suc (length fp)) s2 else s2);
          has_exp = (case s3 of [] \<Rightarrow> False | c # r \<Rightarrow> c = CHR ''e'' \<or> c = CHR ''E'');
          s4 = (if has_exp then tl s3 else s3);
          exp_neg = (case s4 of [] \<Rightarrow> False | c # r \<Rightarrow> has_exp \<and> c = CHR ''-'');
          exp_sign = (case s4 of [] \<Rightarrow> False
                      | c # r \<Rightarrow> has_exp \<and> (c = CHR ''-'' \<or> c = CHR ''+''));
          s5 = (if exp_sign then tl s4 else s4);
          ep = (if has_exp then takeWhile is_digit s5 else []);
          s6 = drop (length ep) s5;
          mantissa = (of_nat (digits_value 10 (ip @ fp)) :: rat) / 10 ^ length fp;
          scaled = (if exp_neg then mantissa / 10 ^ digits_value 10 ep
                    else mantissa * 10 ^ digits_value 10 ep)
      in if ip = [] \<or> (1 < length ip \<and> hd ip = CHR ''0'') \<or> (has_frac \<and> fp = [])
            \<or> (has_exp \<and> ep = [])
         then None
         else Some (if negative then - scaled else scaled, length s - length s6))"

function lex :: "string \<Rightarrow> token list option" where
  "lex [] = Some []"
| "lex (c # cs) =
     (if json_ws c then lex cs
      else if c = CHR ''{'' then map_option ((#) TLBrace) (lex cs)
      else if c = CHR ''}'' then map_option ((#) TRBrace) (lex cs)
      else if c = CHR ''['' then map_option ((#) TLBracket) (lex cs)
      else if c = CHR '']'' then map_option ((#) TRBracket) (lex cs)
      else if c = CHR '':'' then map_option ((#) TColon) (lex cs)
      else if c = CHR '','' then map_option ((#) TComma) (lex cs)
      else if c = CHR 0x22 then
        (case string_extent cs of
           None \<Rightarrow> None
         | Some n \<Rightarrow>
             (case unescape (take n cs) of
                None \<Rightarrow> None
              | Some str \<Rightarrow> map_option ((#) (TValue (JStr str))) (lex (drop (Suc n) cs))))
      else if prefix ''true'' (c # cs) then
        map_option ((#) (TValue (JBool True))) (lex (drop 3 cs))
      else if prefix ''false'' (c # cs) then
        map_option ((#) (TValue (JBool False))) (lex (drop 4 cs))
      else if prefix ''null'' (c # cs) then
        map_option ((#) (TValue JNull)) (lex (drop 3 cs))
      else
        (case lex_number (c # cs) of
           None \<Rightarrow> None
         | Some (v, n) \<Rightarrow> map_option ((#) (TValue (JNum v))) (lex (drop (n - 1) cs))))"
  by pat_completeness auto
termination
  by (relation "measure length") auto

text \<open>The parser is a stack machine over the tokens: a frame for each open array or
  object, and what may come next.\<close>

datatype frame =
    InArray "jsval list"
  | InObject "(string \<times> jsval) list"
  | InMember "(string \<times> jsval) list" string

datatype expect = ValueNext | ValueOrEnd | KeyOrEnd | KeyNext | ColonNext | SepNext | Done jsval

fun place :: "jsval \<Rightarrow> frame list \<Rightarrow> (expect \<times> frame list) option" where
  "place v [] = Some (Done v, [])"
| "place v (InArray es # st) = Some (SepNext, InArray (v # es) # st)"
| "place v (InMember ms k # st) = Some (SepNext, InObject ((k, v) # ms) # st)"
| "place v (InObject ms # st) = None"

fun value_start :: "token \<Rightarrow> frame list \<Rightarrow> (expect \<times> frame list) option" where
  "value_start (TValue v) st = place v st"
| "value_start TLBracket st = Some (ValueOrEnd, InArray [] # st)"
| "value_start TLBrace st = Some (KeyOrEnd, InObject [] # st)"
| "value_start t st = None"

fun key_start :: "token \<Rightarrow> frame list \<Rightarrow> (expect \<times> frame list) option" where
  "key_start (TValue (JStr k)) (InObject ms # st) = Some (ColonNext, InMember ms k # st)"
| "key_start t st = None"

fun close_array :: "frame list \<Rightarrow> (expect \<times> frame list) option" where
  "close_array (InArray es # st) = place (JArr (rev es)) st"
| "close_array st = None"

fun close_object :: "frame list \<Rightarrow> (expect \<times> frame list) option" where
  "close_object (InObject ms # st) = place (JObj (rev ms)) st"
| "close_object st = None"

fun after_comma :: "frame list \<Rightarrow> (expect \<times> frame list) option" where
  "after_comma (InArray es # st) = Some (ValueNext, InArray es # st)"
| "after_comma (InObject ms # st) = Some (KeyNext, InObject ms # st)"
| "after_comma st = None"

fun pstep :: "expect \<Rightarrow> frame list \<Rightarrow> token \<Rightarrow> (expect \<times> frame list) option" where
  "pstep (Done v) st t = None"
| "pstep ValueNext st t = value_start t st"
| "pstep ValueOrEnd st t = (if t = TRBracket then close_array st else value_start t st)"
| "pstep KeyOrEnd st t = (if t = TRBrace then close_object st else key_start t st)"
| "pstep KeyNext st t = key_start t st"
| "pstep ColonNext st t = (if t = TColon then Some (ValueNext, st) else None)"
| "pstep SepNext st t =
     (if t = TComma then after_comma st
      else if t = TRBracket then close_array st
      else if t = TRBrace then close_object st
      else None)"

fun run_parser :: "expect \<times> frame list \<Rightarrow> token list \<Rightarrow> (expect \<times> frame list) option" where
  "run_parser s [] = Some s"
| "run_parser (ex, st) (t # ts) =
     (case pstep ex st t of None \<Rightarrow> None | Some s' \<Rightarrow> run_parser s' ts)"

text \<open>\<^verbatim>\<open>JSON.parse(text)\<close>; \<open>None\<close> is the SyntaxError.\<close>

definition JSON_parse :: "string \<Rightarrow> jsval option" where
  "JSON_parse text =
     (case lex text of
        None \<Rightarrow> None
      | Some ts \<Rightarrow>
          (case run_parser (ValueNext, []) ts of
             Some (Done v, []) \<Rightarrow> Some v
           | _ \<Rightarrow> None))"

subsection \<open>isExpired\<close>

text \<open>\<^verbatim>\<open>s.split(sep)\<close> for a separator that is not empty: the pieces between the
  occurrences of the separator, never an empty list.\<close>

function split_from :: "string \<Rightarrow> string \<Rightarrow> string \<Rightarrow> string list" where
  "split_from sep acc [] = [rev acc]"
| "split_from sep acc (c # cs) =
     (if prefix sep (c # cs) then rev acc # split_from sep [] (drop (length sep - 1) cs)
      else split_from sep (c # acc) cs)"
  by pat_completeness auto
termination
  by (relation "measure (\<lambda>(sep, acc, s). length s)") auto

definition split :: "string \<Rightarrow> string \<Rightarrow> string list" where
  "split sep s = split_from sep [] s"

text \<open>\<^verbatim>\<open>DateTime.fromSeconds\<close> of luxon throws on anything that is not a number.\<close>

definition fromSeconds :: "jsval \<Rightarrow> js_error + rat" where
  "fromSeconds v = (case v of JNum secs \<Rightarrow> Inr secs | _ \<Rightarrow> Inl InvalidArgumentError)"

text \<open>The \<^verbatim>\<open>try\<close> block of \<^verbatim>\<open>isExpired\<close>. The clock is read in milliseconds;
  \<^verbatim>\<open>Math.floor(DateTime.now().toSeconds())\<close> is the whole seconds in it. The console lines
  of the block have no effect on the result and are left out.\<close>

definition isExpired_try :: "int \<Rightarrow> string \<Rightarrow> js_error + bool" where
  "isExpired_try nowMs decodedPayload =
     (case JSON_parse decodedPayload of
        None \<Rightarrow> Inl SyntaxError
      | Some parsedPayload \<Rightarrow>
          (let now = nowMs div 1000 in
           bind_e (get_prop parsedPayload ''exp'') (\<lambda>exp.
             if truthy exp then
               bind_e (fromSeconds exp) (\<lambda>secs. Inr (of_int now > secs))
             else Inr False)))"

text \<open>
  \<^verbatim>\<open>isExpired(token)\<close>. The second piece of the token is decoded before the \<^verbatim>\<open>try\<close>
  block: with no second piece, \<^verbatim>\<open>Buffer.from(undefined, 'base64')\<close> throws a TypeError
  to the caller. Inside the block every exception becomes the answer \<^verbatim>\<open>true\<close>.
\<close>

definition isExpired :: "int \<Rightarrow> string \<Rightarrow> js_error + bool" where
  "isExpired nowMs token =
     (case split ''.'' token of
        header # payload # sign \<Rightarrow>
          (let decodedPayload = base64_toString payload in
           case isExpired_try nowMs decodedPayload of
             Inl err \<Rightarrow> Inr True
           | Inr expired \<Rightarrow> Inr expired)
      | _ \<Rightarrow> Inl TypeError)"

section \<open>The credential store and the input files\<close>

text \<open>The fields of \<^verbatim>\<open>PawsClient\<close> that change or are read after construction.
  \<^verbatim>\<open>this.tokens\<close> is an object used as a dictionary from user id to token.\<close>

record client =
  tokens :: "string \<rightharpoonup> jsval"
  wallets :: "string list"
  proxies :: "string list"

text \<open>Which of the two files is running.\<close>

datatype variant = Plain | Proxy

text \<open>\<^verbatim>\<open>.replace(/\r/g, '').split('\n').filter(Boolean)\<close>\<close>

definition read_lines :: "string \<Rightarrow> string list" where
  "read_lines text =
     filter (\<lambda>l. l \<noteq> []) (split [CHR 0x0A] (filter (\<lambda>c. c \<noteq> CHR 0x0D) text))"

definition loadWallets :: "env \<Rightarrow> world \<Rightarrow> string list \<times> world" where
  "loadWallets en w =
     (case wallet_txt en of
        Absent \<Rightarrow> ([], w)
      | Content text \<Rightarrow> (read_lines text, w)
      | Unreadable err \<Rightarrow> ([], log_line Error (ReadWalletError (MessageOf err)) w))"

definition loadProxies :: "env \<Rightarrow> world \<Rightarrow> string list \<times> world" where
  "loadProxies en w =
     (case proxy_txt en of
        Absent \<Rightarrow> ([], w)
      | Content text \<Rightarrow> (read_lines text, w)
      | Unreadable err \<Rightarrow> ([], log_line Error (ReadProxyError (MessageOf err)) w))"

definition loadTokens :: "env \<Rightarrow> world \<Rightarrow> (string \<rightharpoonup> jsval) \<times> world" where
  "loadTokens en w =
     (case token_store en of
        NoTokenFile \<Rightarrow> (Map.empty, w)
      | TokenFileObject kvs \<Rightarrow> (map_of (rev kvs), w)
      | TokenFileUnreadable err \<Rightarrow> (Map.empty, log_line Error (ReadTokenError (MessageOf err)) w)
      | TokenFileNotJSON \<Rightarrow>
          (Map.empty, log_line Error (ReadTokenError (MessageOf SyntaxError)) w))"

text \<open>The constructor: tokens, then wallets, then (in \<^verbatim>\<open>paws-proxy.js\<close>) proxies.\<close>

definition new_client :: "variant \<Rightarrow> env \<Rightarrow> world \<Rightarrow> client \<times> world" where
  "new_client v en w =
     (case loadTokens en w of
        (ts, w1) \<Rightarrow>
          (case loadWallets en w1 of
             (ws, w2) \<Rightarrow>
               (case (if v = Proxy then loadProxies en w2 else ([], w2)) of
                  (ps, w3) \<Rightarrow> (\<lparr>tokens = ts, wallets = ws, proxies = ps\<rparr>, w3))))"

text \<open>
  \<^verbatim>\<open>saveToken\<close>: the assignment \<^verbatim>\<open>this.tokens[userId] = token\<close> comes first, outside the
  \<^verbatim>\<open>try\<close> block; the write of the whole store follows, and its failure is caught and
  logged.
\<close>

definition saveToken :: "env \<Rightarrow> jsval \<Rightarrow> jsval \<Rightarrow> client \<Rightarrow> world \<Rightarrow> client \<times> world" where
  "saveToken en userId token c w =
     (let c1 = c\<lparr>tokens := (tokens c)(toStr en userId \<mapsto> token)\<rparr>;
          w1 = emit WriteAttempt w
      in case writeFile en (n_writes w) of
           None \<Rightarrow>
             (c1, log_line Success (SavedToken (toStr en userId))
                    (w1\<lparr>token_file := Some (tokens c1)\<rparr>))
         | Some err \<Rightarrow> (c1, log_line Error (SaveTokenError (MessageOf err)) w1))"

text \<open>\<^verbatim>\<open>validateWalletFile\<close> reads \<^verbatim>\<open>data.txt\<close> with no \<^verbatim>\<open>try\<close> around it;
  \<^verbatim>\<open>paws-proxy.js\<close> adds the comparison of the proxy list.\<close>

definition validateWalletFile ::
  "variant \<Rightarrow> env \<Rightarrow> client \<Rightarrow> world \<Rightarrow> (js_error + bool) \<times> world" where
  "validateWalletFile v en c w =
     (case data_txt en of
        Absent \<Rightarrow> (Inl (FsError ''ENOENT''), w)
      | Unreadable err \<Rightarrow> (Inl err, w)
      | Content text \<Rightarrow>
          (let dat = read_lines text in
           if length (wallets c) \<noteq> length dat then
             (Inr False,
              log_line Error (WalletCountMismatch (length (wallets c)) (length dat)) w)
           else if v = Proxy \<and> length (proxies c) \<noteq> length dat then
             (Inr False,
              log_line Error (ProxyCountMismatch (length (proxies c)) (length dat)) w)
           else (Inr True, w)))"

section \<open>Sessions\<close>

definition auth_url :: string where
  "auth_url = ''https://api.paws.community/v1/user/auth''"

definition user_url :: string where
  "user_url = ''https://api.paws.community/v1/user''"

definition wallet_url :: string where
  "wallet_url = ''https://api.paws.community/v1/user/wallet''"

definition ipify_url :: string where
  "ipify_url = ''https://api.ipify.org?format=json''"

definition authenticate_body :: "jsval \<Rightarrow> js_error + result" where
  "authenticate_body response =
     bind_e (get_prop response ''status'') (\<lambda>status.
       if status \<noteq> JNum 201 then Inr (Failed (Literal ''Authentication failed''))
       else
         bind_e (get_prop response ''data'') (\<lambda>body.
         bind_e (get_prop body ''success'') (\<lambda>success.
           if \<not> truthy success then Inr (Failed (Literal ''Authentication failed''))
           else
             bind_e (get_prop body ''data'') (\<lambda>d.
             bind_e (get_index d 0) (\<lambda>token.
             bind_e (get_index d 1) (\<lambda>userData.
             bind_e (get_prop userData ''gameData'') (\<lambda>gameData.
             bind_e (get_prop gameData ''balance'') (\<lambda>balance.
             bind_e (get_prop userData ''userData'') (\<lambda>ud.
             bind_e (get_prop ud ''username'') (\<lambda>username.
             bind_e (get_prop ud ''firstname'') (\<lambda>firstname.
             bind_e (get_prop ud ''wallet'') (\<lambda>wallet.
             Inr (Succeeded (JObj [(''token'', token), (''balance'', balance),
                                   (''username'', username), (''firstname'', firstname),
                                   (''wallet'', wallet)]))))))))))))))"

definition authenticate :: "env \<Rightarrow> string \<Rightarrow> string option \<Rightarrow> world \<Rightarrow> result \<times> world" where
  "authenticate en initData proxy w =
     (case request en
             \<lparr>http_method = ''post'', url = auth_url, authorization = None,
              data = JObj [(''data'', JStr initData), (''referralCode'', JStr [])],
              httpsAgent = None\<rparr> proxy w of
        (Inl err, w1) \<Rightarrow> (Failed (MessageOf err), w1)
      | (Inr response, w1) \<Rightarrow>
          (case authenticate_body response of
             Inl err \<Rightarrow> (Failed (MessageOf err), w1)
           | Inr r \<Rightarrow> (r, w1)))"

definition getUserInfo_body :: "jsval \<Rightarrow> js_error + result" where
  "getUserInfo_body response =
     bind_e (get_prop response ''status'') (\<lambda>status.
       if status \<noteq> JNum 200 then Inr (Failed (Literal ''Failed to get user info''))
       else
         bind_e (get_prop response ''data'') (\<lambda>body.
         bind_e (get_prop body ''success'') (\<lambda>success.
           if \<not> truthy success then Inr (Failed (Literal ''Failed to get user info''))
           else
             bind_e (get_prop body ''data'') (\<lambda>userData.
             bind_e (get_prop userData ''gameData'') (\<lambda>gameData.
             bind_e (get_prop gameData ''balance'') (\<lambda>balance.
             bind_e (get_prop userData ''userData'') (\<lambda>ud.
             bind_e (get_prop ud ''wallet'') (\<lambda>wallet.
             Inr (Succeeded (JObj [(''balance'', balance), (''wallet'', wallet)]))))))))))"

definition getUserInfo :: "env \<Rightarrow> jsval \<Rightarrow> string option \<Rightarrow> world \<Rightarrow> result \<times> world" where
  "getUserInfo en token proxy w =
     (case request en (api_request ''get'' user_url token JUndefined) proxy w of
        (Inl err, w1) \<Rightarrow> (Failed (MessageOf err), w1)
      | (Inr response, w1) \<Rightarrow>
          (case getUserInfo_body response of
             Inl err \<Rightarrow> (Failed (MessageOf err), w1)
           | Inr r \<Rightarrow> (r, w1)))"

definition linkWallet_body :: "jsval \<Rightarrow> js_error + result" where
  "linkWallet_body response =
     bind_e (get_prop response ''status'') (\<lambda>status.
       if status \<noteq> JNum 201 then Inr (Failed (Literal ''Failed to link wallet''))
       else
         bind_e (get_prop response ''data'') (\<lambda>body.
         bind_e (get_prop body ''success'') (\<lambda>success.
           if truthy success then Inr (Succeeded JUndefined)
           else Inr (Failed (Literal ''Failed to link wallet'')))))"

definition linkWallet ::
  "env \<Rightarrow> jsval \<Rightarrow> jsval \<Rightarrow> string option \<Rightarrow> world \<Rightarrow> result \<times> world" where
  "linkWallet en token wallet proxy w =
     (case request en (api_request ''post'' wallet_url token (JObj [(''wallet'', wallet)]))
             proxy w of
        (Inl err, w1) \<Rightarrow> (Failed (MessageOf err), w1)
      | (Inr response, w1) \<Rightarrow>
          (case linkWallet_body response of
             Inl err \<Rightarrow> (Failed (MessageOf err), w1)
           | Inr r \<Rightarrow> (r, w1)))"

text \<open>\<^verbatim>\<open>checkProxyIP\<close> of \<^verbatim>\<open>paws-proxy.js\<close>: one direct axios call through the proxy;
  whatever goes wrong is thrown again inside a new error.\<close>

definition checkProxyIP :: "env \<Rightarrow> string option \<Rightarrow> world \<Rightarrow> (js_error + jsval) \<times> world" where
  "checkProxyIP en proxy w =
     (case (case proxy of None \<Rightarrow> Some TypeError | Some p \<Rightarrow> proxyAgent en p) of
        Some err \<Rightarrow> (Inl (ProxyCheckError err), w)
      | None \<Rightarrow>
          (let cfg = \<lparr>http_method = ''get'', url = ipify_url, authorization = None,
                      data = JUndefined, httpsAgent = proxy\<rparr>;
               w1 = emit (Request cfg) w
           in case axios en (n_requests w) cfg of
                Throws err \<Rightarrow> (Inl (ProxyCheckError err), w1)
              | Responds response \<Rightarrow>
                  (case bind_e (get_prop response ''status'') (\<lambda>status.
                          if status = JNum 200
                          then bind_e (get_prop response ''data'') (\<lambda>d. get_prop d ''ip'')
                          else Inl (BadProxyStatus status)) of
                     Inl err \<Rightarrow> (Inl (ProxyCheckError err), w1)
                   | Inr ip \<Rightarrow> (Inr ip, w1))))"

section \<open>The run loop\<close>

text \<open>Reading a member of \<^verbatim>\<open>undefined\<close> or \<^verbatim>\<open>null\<close> throws; this is all that
  \<^verbatim>\<open>firstName.green\<close> and \<^verbatim>\<open>balance.toString()\<close> can do to the control flow.\<close>

definition deref :: "jsval \<Rightarrow> js_error + unit" where
  "deref v = (case v of JUndefined \<Rightarrow> Inl TypeError | JNull \<Rightarrow> Inl TypeError | _ \<Rightarrow> Inr ())"

text \<open>A field of an object that the client built itself.\<close>

definition field :: "jsval \<Rightarrow> string \<Rightarrow> jsval" where
  "field obj k = (case get_prop obj k of Inl err \<Rightarrow> JUndefined | Inr v \<Rightarrow> v)"

text \<open>\<^verbatim>\<open>JSON.parse(decodeURIComponent(initData.split('user=')[1].split('&')[0]))\<close>\<close>

definition parse_user :: "env \<Rightarrow> string \<Rightarrow> js_error + jsval" where
  "parse_user en initData =
     (case split ''user='' initData of
        front # back # further \<Rightarrow>
          (case split ''&'' back of
             [] \<Rightarrow> Inl TypeError
           | encoded # others \<Rightarrow>
               bind_e (decodeURIComponent en encoded) (\<lambda>text.
                 case JSON_parse text of None \<Rightarrow> Inl SyntaxError | Some v \<Rightarrow> Inr v))
      | _ \<Rightarrow> Inl TypeError)"

text \<open>\<^verbatim>\<open>this.isExpired(userToken)\<close> on a stored value: only a string has \<^verbatim>\<open>split\<close>.\<close>

definition token_expired :: "env \<Rightarrow> world \<Rightarrow> jsval \<Rightarrow> js_error + bool" where
  "token_expired en w userToken =
     (case userToken of
        JStr t \<Rightarrow> isExpired (clock en (length (events w))) t
      | _ \<Rightarrow> Inl TypeError)"

definition link_if_needed ::
  "env \<Rightarrow> jsval \<Rightarrow> jsval \<Rightarrow> string option \<Rightarrow> jsval \<Rightarrow> world \<Rightarrow> world" where
  "link_if_needed en userToken walletAddress proxy wallet w =
     (if truthy wallet then log_line Success (WalletLinked wallet) w
      else
        (case linkWallet en userToken walletAddress proxy (log_line Warning WalletNotLinked w) of
           (Succeeded d, w1) \<Rightarrow> log_line Success (WalletLinkDone walletAddress) w1
         | (Failed err, w1) \<Rightarrow> log_line Error (WalletLinkError err) w1))"

text \<open>The token part of one account's pass: \<open>Inl\<close> is an exception that leaves
  \<^verbatim>\<open>main\<close>, \<open>Inr None\<close> is the \<^verbatim>\<open>continue\<close> after a failed login, \<open>Inr (Some t)\<close> is the
  token to work with.\<close>

definition session_step ::
  "env \<Rightarrow> string \<Rightarrow> jsval \<Rightarrow> jsval \<Rightarrow> string option \<Rightarrow> client \<Rightarrow> world
     \<Rightarrow> (js_error + jsval option) \<times> client \<times> world" where
  "session_step en initData userId walletAddress proxy c w =
     (let userToken = (case tokens c (toStr en userId) of None \<Rightarrow> JUndefined | Some t \<Rightarrow> t) in
      case (if \<not> truthy userToken then Inr True else token_expired en w userToken) of
        Inl err \<Rightarrow> (Inl err, c, w)
      | Inr needsNewToken \<Rightarrow>
          if needsNewToken then
            (case authenticate en initData proxy
                    (log_line Warning (NeedNewToken (toStr en userId)) w) of
               (Failed err, w1) \<Rightarrow> (Inr None, c, log_line Error (LoginFailed err) w1)
             | (Succeeded authResult, w1) \<Rightarrow>
                 (case saveToken en userId (field authResult ''token'') c w1 of
                    (c2, w2) \<Rightarrow>
                      (case deref (field authResult ''balance'') of
                         Inl err \<Rightarrow> (Inl err, c2, w2)
                       | Inr u \<Rightarrow>
                           (Inr (Some (field authResult ''token'')), c2,
                            link_if_needed en (field authResult ''token'') walletAddress proxy
                              (field authResult ''wallet'')
                              (log_line Custom (Balance (field authResult ''balance'')) w2)))))
          else
            (case getUserInfo en userToken proxy
                    (log_line Info (UseExistingToken (toStr en userId)) w) of
               (Failed err, w1) \<Rightarrow>
                 (Inr (Some userToken), c, log_line Error (UserInfoError err) w1)
             | (Succeeded userInfo, w1) \<Rightarrow>
                 (case deref (field userInfo ''balance'') of
                    Inl err \<Rightarrow> (Inl err, c, w1)
                  | Inr u \<Rightarrow>
                      (Inr (Some userToken), c,
                       link_if_needed en userToken walletAddress proxy
                         (field userInfo ''wallet'')
                         (log_line Custom (Balance (field userInfo ''balance'')) w1)))))"

definition account_work ::
  "env \<Rightarrow> bool \<Rightarrow> bool \<Rightarrow> string \<Rightarrow> jsval \<Rightarrow> jsval \<Rightarrow> string option \<Rightarrow> client \<Rightarrow> world
     \<Rightarrow> js_error option \<times> client \<times> world" where
  "account_work en hoinhiemvu lamChristmas initData userId walletAddress proxy c w =
     (case session_step en initData userId walletAddress proxy c w of
        (Inl err, c1, w1) \<Rightarrow> (Some err, c1, w1)
      | (Inr None, c1, w1) \<Rightarrow> (None, c1, w1)
      | (Inr (Some userToken), c1, w1) \<Rightarrow>
          (let w2 = (if hoinhiemvu
                     then processQuests en userToken proxy (log_line Info CheckingMission w1)
                     else w1);
               w3 = (if lamChristmas
                     then processChristmasQuests en userToken proxy
                            (log_line Info CheckingChristmas w2)
                     else w2)
           in (None, c1, emit (Wait 1000) w3)))"

text \<open>The body of \<^verbatim>\<open>for (let i = 0; i < data.length; i++)\<close>. \<open>Some err\<close> is an exception
  that nothing in \<^verbatim>\<open>main\<close> catches.\<close>

definition process_account ::
  "variant \<Rightarrow> env \<Rightarrow> bool \<Rightarrow> bool \<Rightarrow> nat \<Rightarrow> string \<Rightarrow> client \<Rightarrow> world
     \<Rightarrow> js_error option \<times> client \<times> world" where
  "process_account v en hoinhiemvu lamChristmas i initData c w =
     (case bind_e (parse_user en initData) (\<lambda>userData.
           bind_e (get_prop userData ''id'') (\<lambda>userId.
           bind_e (get_prop userData ''first_name'') (\<lambda>firstName.
           Inr (userId, firstName)))) of
        Inl err \<Rightarrow> (Some err, c, w)
      | Inr (userId, firstName) \<Rightarrow>
          (let walletAddress =
                 (if i < length (wallets c) then JStr (wallets c ! i) else JUndefined)
           in case v of
                Plain \<Rightarrow>
                  (case deref firstName of
                     Inl err \<Rightarrow> (Some err, c, w)
                   | Inr u \<Rightarrow>
                       account_work en hoinhiemvu lamChristmas initData userId walletAddress
                         None c (emit (AccountHeader (i + 1) firstName JUndefined) w))
              | Proxy \<Rightarrow>
                  (let proxy = (if i < length (proxies c) then Some (proxies c ! i) else None)
                   in case checkProxyIP en proxy w of
                        (Inl err, w1) \<Rightarrow>
                          (None, c, log_line Error (ProxyFailure (i + 1) (MessageOf err)) w1)
                      | (Inr proxyIP, w1) \<Rightarrow>
                          (case bind_e (deref firstName) (\<lambda>u. deref proxyIP) of
                             Inl err \<Rightarrow>
                               (None, c,
                                log_line Error (ProxyFailure (i + 1) (MessageOf err)) w1)
                           | Inr u \<Rightarrow>
                               account_work en hoinhiemvu lamChristmas initData userId
                                 walletAddress proxy c
                                 (emit (AccountHeader (i + 1) firstName proxyIP) w1)))))"

fun accounts_loop ::
  "variant \<Rightarrow> env \<Rightarrow> bool \<Rightarrow> bool \<Rightarrow> nat \<Rightarrow> string list \<Rightarrow> client \<Rightarrow> world
     \<Rightarrow> js_error option \<times> client \<times> world" where
  "accounts_loop v en hoinhiemvu lamChristmas i [] c w = (None, c, w)"
| "accounts_loop v en hoinhiemvu lamChristmas i (initData # rest) c w =
     (case process_account v en hoinhiemvu lamChristmas i initData c w of
        (Some err, c1, w1) \<Rightarrow> (Some err, c1, w1)
      | (None, c1, w1) \<Rightarrow> accounts_loop v en hoinhiemvu lamChristmas (i + 1) rest c1 w1)"

text \<open>\<^verbatim>\<open>countdown(seconds)\<close>: a line and a one-second pause for each value from
  \<open>seconds\<close> down to 0, then an empty log line.\<close>

fun countdown_from :: "nat \<Rightarrow> world \<Rightarrow> world" where
  "countdown_from 0 w = emit (Wait 1000) (emit (CountdownLine 0) w)"
| "countdown_from (Suc n) w =
     countdown_from n (emit (Wait 1000) (emit (CountdownLine (Suc n)) w))"

definition countdown :: "nat \<Rightarrow> world \<Rightarrow> world" where
  "countdown seconds w = log_line Info EmptyLine (countdown_from seconds w)"

definition askQuestion :: "env \<Rightarrow> world \<Rightarrow> string \<times> world" where
  "askQuestion en w = (answers en (n_prompts w), emit (Prompt (n_prompts w)) w)"

text \<open>\<^verbatim>\<open>answer.toLowerCase() === 'y'\<close>\<close>

definition says_yes :: "string \<Rightarrow> bool" where
  "says_yes answer = (answer = ''y'' \<or> answer = ''Y'')"

datatype main_outcome = ProcessExit nat | Thrown js_error | StillRunning

text \<open>\<^verbatim>\<open>while (true)\<close> never ends by itself; the model runs a given number of passes over
  the accounts and then reports that the loop is still running.\<close>

fun run_cycles ::
  "variant \<Rightarrow> env \<Rightarrow> bool \<Rightarrow> bool \<Rightarrow> string list \<Rightarrow> nat \<Rightarrow> client \<Rightarrow> world
     \<Rightarrow> main_outcome \<times> client \<times> world" where
  "run_cycles v en hoinhiemvu lamChristmas dat 0 c w = (StillRunning, c, w)"
| "run_cycles v en hoinhiemvu lamChristmas dat (Suc passes) c w =
     (case accounts_loop v en hoinhiemvu lamChristmas 0 dat c w of
        (Some err, c1, w1) \<Rightarrow> (Thrown err, c1, w1)
      | (None, c1, w1) \<Rightarrow>
          run_cycles v en hoinhiemvu lamChristmas dat passes c1 (countdown (1440 * 60) w1))"

text \<open>\<^verbatim>\<open>main\<close>: \<^verbatim>\<open>process.exit(1)\<close> ends the process at once, before the data file is
  read again, before the prompts and before the loop.\<close>

definition main ::
  "variant \<Rightarrow> env \<Rightarrow> nat \<Rightarrow> client \<Rightarrow> world \<Rightarrow> main_outcome \<times> client \<times> world" where
  "main v en passes c w =
     (case validateWalletFile v en c w of
        (Inl err, w1) \<Rightarrow> (Thrown err, c, w1)
      | (Inr False, w1) \<Rightarrow> (ProcessExit 1, c, w1)
      | (Inr True, w1) \<Rightarrow>
          (case data_txt en of
             Absent \<Rightarrow> (Thrown (FsError ''ENOENT''), c, w1)
           | Unreadable err \<Rightarrow> (Thrown err, c, w1)
           | Content text \<Rightarrow>
               (case askQuestion en (log_line Info Banner w1) of
                  (nhiemvu, w2) \<Rightarrow>
                    (case askQuestion en w2 of
                       (christmas, w3) \<Rightarrow>
                         run_cycles v en (says_yes nhiemvu) (says_yes christmas)
                           (read_lines text) passes c w3))))"

text \<open>The last lines of the file: build the client, run \<^verbatim>\<open>main\<close>, and on an exception
  log it and exit with code 1.\<close>

definition program :: "variant \<Rightarrow> env \<Rightarrow> nat \<Rightarrow> main_outcome \<times> client \<times> world" where
  "program v en passes =
     (case new_client v en \<lparr>events = [], token_file = None\<rparr> of
        (c, w) \<Rightarrow>
          (case main v en passes c w of
             (Thrown err, c1, w1) \<Rightarrow>
               (ProcessExit 1, c1, log_line Error (TopLevelError (MessageOf err)) w1)
           | r \<Rightarrow> r))"

section \<open>The seasonal rule in the specification's words\<close>

text \<open>
  The specification keeps a seasonal quest when its code starts with the seasonal prefix,
  its numeric suffix is at most 6, it is unclaimed and its status is not
  \<^verbatim>\<open>finished\<close>. This is that rule, stated on its own for comparison with
  \<open>christmas_filter\<close>, for a quest whose code is a string and whose progress is an
  object; the numeric suffix is what \<^verbatim>\<open>parseInt\<close> reads in the text after the first nine
  characters.
\<close>

definition quest_shape :: "jsval \<Rightarrow> (string \<times> jsval \<times> jsval) option" where
  "quest_shape quest =
     (case get_prop quest ''code'' of
        Inr (JStr code) \<Rightarrow>
          (case get_prop quest ''progress'' of
             Inr (JObj ms) \<Rightarrow>
               Some (code, field (JObj ms) ''claimed'', field (JObj ms) ''status'')
           | _ \<Rightarrow> None)
      | _ \<Rightarrow> None)"

definition well_shaped :: "jsval \<Rightarrow> bool" where
  "well_shaped quest = (quest_shape quest \<noteq> None)"

definition seasonal_spec :: "jsval \<Rightarrow> bool" where
  "seasonal_spec quest =
     (case quest_shape quest of
        None \<Rightarrow> False
      | Some (code, claimed, status) \<Rightarrow>
          prefix ''christmas'' code \<and> at_most_6 (parseInt (drop 9 code))
          \<and> \<not> truthy claimed \<and> status \<noteq> JStr ''finished'')"

section \<open>Sample surroundings\<close>

text \<open>A world in which nothing has happened yet, and an environment around a server that
  answers by the request alone: no proxy agent fails, every write succeeds, there are no
  input files, and a string is its own text.\<close>

definition fresh :: world where
  "fresh = \<lparr>events = [], token_file = None\<rparr>"

definition env_of :: "(nat \<Rightarrow> config \<Rightarrow> http_outcome) \<Rightarrow> env" where
  "env_of server =
     \<lparr>axios = server, proxyAgent = (\<lambda>p. None), writeFile = (\<lambda>n. None),
      wallet_txt = Absent, data_txt = Absent, proxy_txt = Absent,
      token_store = NoTokenFile, answers = (\<lambda>n. ''n''), clock = (\<lambda>n. 0),
      toStr = (\<lambda>v. case v of JStr s \<Rightarrow> s | _ \<Rightarrow> []), decodeURIComponent = Inr\<rparr>"

definition http_200 :: "jsval \<Rightarrow> jsval" where
  "http_200 body = JObj [(''status'', JNum 200), (''data'', body)]"

definition quest_of :: "string \<Rightarrow> string \<Rightarrow> string \<Rightarrow> bool \<Rightarrow> string \<Rightarrow> jsval list \<Rightarrow> jsval" where
  "quest_of qid title code claimed status rewards =
     JObj [(''_id'', JStr qid), (''title'', JStr title), (''code'', JStr code),
           (''progress'', JObj [(''claimed'', JBool claimed), (''status'', JStr status)]),
           (''rewards'', JArr rewards)]"

text \<open>A server whose first five calls time out.\<close>

definition flaky :: "nat \<Rightarrow> config \<Rightarrow> http_outcome" where
  "flaky n cfg =
     (if n < 5 then Throws (AxiosError (''timeout '' @ decimal n))
      else Responds (http_200 (JObj [(''success'', JBool True)])))"

text \<open>A server that lists two unclaimed quests, says of every completion that the
  account does not qualify, and accepts every claim.\<close>

definition unqualified :: "nat \<Rightarrow> config \<Rightarrow> http_outcome" where
  "unqualified n cfg =
     (if url cfg = quests_list_url then
        Responds (http_200 (JObj [(''success'', JBool True),
          (''data'', JArr [quest_of ''q1'' ''First'' ''daily'' False ''active''
                             [JObj [(''amount'', JNum 100)]],
                           quest_of ''q2'' ''Second'' ''daily'' False ''active''
                             [JObj [(''amount'', JNum 200)]]])]))
      else if url cfg = completed_url then
        Responds (http_200 (JObj [(''success'', JBool False), (''data'', JBool False)]))
      else Responds (http_200 (JObj [(''success'', JBool True)])))"

text \<open>A server that says of every completion that the quest is done but not claimed.\<close>

definition already_done :: "nat \<Rightarrow> config \<Rightarrow> http_outcome" where
  "already_done n cfg =
     (if url cfg = completed_url then
        Responds (http_200 (JObj [(''success'', JBool False), (''data'', JBool True)]))
      else Responds (http_200 (JObj [(''success'', JBool True)])))"

text \<open>A server whose seasonal list has three unclaimed, active quests.\<close>

definition seasonal_list :: "jsval list" where
  "seasonal_list =
     [quest_of ''c1'' ''Third gift'' ''christmas_003'' False ''active'' [],
      quest_of ''c2'' ''Seventh gift'' ''christmas_007'' False ''active'' [],
      quest_of ''c3'' ''Gift three'' ''christmas3'' False ''active'' []]"

definition seasonal_server :: "nat \<Rightarrow> config \<Rightarrow> http_outcome" where
  "seasonal_server n cfg =
     Responds (http_200 (JObj [(''success'', JBool True), (''data'', JArr seasonal_list)]))"

text \<open>An environment whose wallet file has two lines and whose data file has one, and
  one whose disk is read-only.\<close>

definition mismatched_env :: env where
  "mismatched_env =
     (env_of seasonal_server)
       \<lparr>wallet_txt := Content (''UQwallet1'' @ [CHR 0x0A] @ ''UQwallet2'' @ [CHR 0x0A]),
        data_txt := Content (''user=%7B%22id%22%3A1%7D'' @ [CHR 0x0A])\<rparr>"


text \<open>A server that accepts everything.\<close>

definition agreeable :: "nat \<Rightarrow> config \<Rightarrow> http_outcome" where
  "agreeable n cfg = Responds (http_200 (JObj [(''success'', JBool True)]))"

section \<open>Facts about the world\<close>

lemma emit_emits: "emit e w = emits [e] w"
  by (simp add: emit_def emits_def)

lemma log_line_emits: "log_line l m w = emits [Log l m] w"
  by (simp add: log_line_def emit_def emits_def)

lemma emits_emits: "emits es2 (emits es1 w) = emits (es1 @ es2) w"
  by (simp add: emits_def)

lemma events_emits: "events (emits es w) = events w @ es"
  by (simp add: emits_def)


lemma n_requests_emits:
  "n_requests (emits es w) = n_requests w + length (filter is_request es)"
  by (simp add: n_requests_def emits_def)

lemmas world_simps = emit_emits log_line_emits emits_emits n_requests_emits

lemma requests_of_append: "requests_of (xs @ ys) = requests_of xs @ requests_of ys"
  by (induction xs rule: requests_of.induct) simp_all

lemma requests_of_replicate: "requests_of (replicate k (Request cfg)) = replicate k cfg"
  by (induction k) simp_all

section \<open>The request executor\<close>

text \<open>For any budget: when every call throws, the loop started at some attempt within
  the budget makes one request for that attempt and each later one, and throws the error
  of the last call.\<close>

lemma makeRequest_loop_all_throw:
  "attach_agent en cfg proxy = Inr cfg' \<Longrightarrow> (\<forall>n. \<exists>e. axios en n cfg' = Throws e) \<Longrightarrow>
   attempt \<le> maxRetries \<Longrightarrow>
    \<exists>e es. makeRequest_loop en cfg proxy maxRetries delay attempt w = (Inl e, emits es w)
      \<and> requests_of es = replicate (Suc maxRetries - attempt) cfg'
      \<and> axios en (n_requests w + (maxRetries - attempt)) cfg' = Throws e"
proof (induction en cfg proxy maxRetries delay attempt w rule: makeRequest_loop.induct)
  case (1 en cfg proxy maxRetries retryDelay attempt w)
  note agent = 1(2) and throws = 1(3) and le = 1(4)
  from throws obtain e where e: "axios en (n_requests w) cfg' = Throws e"
    by blast
  have once: "attempt_once en cfg proxy w = (Throws e, emit (Request cfg') w)"
    using e agent by (simp add: attempt_once_def)
  show ?case
  proof (cases "attempt = maxRetries")
    case True
    with le e once have
      "makeRequest_loop en cfg proxy maxRetries retryDelay attempt w
         = (Inl e, emits [Request cfg'] w)"
      by (subst makeRequest_loop.simps) (simp add: world_simps)
    with True e show ?thesis
      by (intro exI [of _ e] exI [of _ "[Request cfg']"]) simp
  next
    case False
    let ?w1 = "emit (Wait retryDelay) (log_line Warning
        (RetryNotice attempt maxRetries (MessageOf e) retryDelay) (emit (Request cfg') w))"
    let ?head = "[Request cfg', Log Warning (RetryNotice attempt maxRetries (MessageOf e)
        retryDelay), Wait retryDelay]"
    from False le have lt: "attempt + 1 \<le> maxRetries"
      by simp
    have w1: "?w1 = emits ?head w"
      by (simp add: world_simps)
    have step: "makeRequest_loop en cfg proxy maxRetries retryDelay attempt w
        = makeRequest_loop en cfg proxy maxRetries retryDelay (attempt + 1) ?w1"
      using le False once
      by (subst makeRequest_loop.simps) simp
    from 1(1) [OF le once [symmetric] refl False agent throws lt]
    obtain e' es where ih:
      "makeRequest_loop en cfg proxy maxRetries retryDelay (attempt + 1) ?w1
        = (Inl e', emits es ?w1)"
      "requests_of es = replicate (Suc maxRetries - (attempt + 1)) cfg'"
      "axios en (n_requests ?w1 + (maxRetries - (attempt + 1))) cfg' = Throws e'"
      by blast
    have "makeRequest_loop en cfg proxy maxRetries retryDelay attempt w
        = (Inl e', emits (?head @ es) w)"
      using step ih(1) by (simp add: w1 emits_emits)
    moreover have "requests_of (?head @ es) = replicate (Suc maxRetries - attempt) cfg'"
      using ih(2) lt by (simp add: Suc_diff_le)
    moreover have "axios en (n_requests w + (maxRetries - attempt)) cfg' = Throws e'"
    proof -
      have "n_requests w + (maxRetries - attempt)
          = n_requests ?w1 + (maxRetries - (attempt + 1))"
        using lt by (simp add: w1 n_requests_emits)
      with ih(3) show ?thesis by simp
    qed
    ultimately show ?thesis by blast
  qed
qed


text \<open>The loop of \<open>makeRequest\<close> with the default budget, unrolled: what is returned and
  what has happened, by the outcomes of the calls it makes.\<close>

lemma request_unrolled:
  assumes "attach_agent en cfg proxy = Inr cfg'"
  shows "makeRequest en cfg proxy 3 5000 w =
     (case axios en (n_requests w) cfg' of
        Responds r1 \<Rightarrow> (Inr r1, emits [Request cfg'] w)
      | Throws e1 \<Rightarrow>
          (case axios en (n_requests w + 1) cfg' of
             Responds r2 \<Rightarrow>
               (Inr r2, emits
                  [Request cfg', Log Warning (RetryNotice 1 3 (MessageOf e1) 5000), Wait 5000,
                   Request cfg'] w)
           | Throws e2 \<Rightarrow>
               (case axios en (n_requests w + 2) cfg' of
                  Responds r3 \<Rightarrow>
                    (Inr r3, emits
                       [Request cfg', Log Warning (RetryNotice 1 3 (MessageOf e1) 5000), Wait 5000,
                        Request cfg', Log Warning (RetryNotice 2 3 (MessageOf e2) 5000), Wait 5000,
                        Request cfg'] w)
                | Throws e3 \<Rightarrow>
                    (Inl e3, emits
                       [Request cfg', Log Warning (RetryNotice 1 3 (MessageOf e1) 5000), Wait 5000,
                        Request cfg', Log Warning (RetryNotice 2 3 (MessageOf e2) 5000), Wait 5000,
                        Request cfg'] w))))"
  using assms
  by (simp add: makeRequest_def attempt_once_def world_simps numeral_2_eq_2
      split: http_outcome.splits)

text \<open>In \<^verbatim>\<open>paws-proxy.js\<close> a proxy whose agent cannot be built fails each of the three
  attempts before anything is sent; the error of the constructor is what the caller
  gets.\<close>

lemma makeRequest_agent_fails:
  assumes "attach_agent en cfg proxy = Inl err"
  shows "makeRequest en cfg proxy 3 5000 w =
     (Inl err, emits
        [Log Warning (RetryNotice 1 3 (MessageOf err) 5000), Wait 5000,
         Log Warning (RetryNotice 2 3 (MessageOf err) 5000), Wait 5000] w)"
  using assms
  by (simp add: makeRequest_def attempt_once_def world_simps numeral_2_eq_2)

text \<open>
  Claim C5. With the default budget (three attempts, 5000 ms between them) and a request
  that can be sent at all (no proxy, as in \<^verbatim>\<open>paws.js\<close>, or a proxy whose agent can be
  built): when the underlying call throws at each of the three attempts, exactly three
  requests are made, with a warning and a pause of 5000 ms after the first and after the
  second, and the error of the third attempt is what the caller gets; when the first,
  second or third attempt is answered, that response is returned and no request follows
  it.
\<close>

theorem makeRequest_three_attempts:
  assumes "attach_agent en cfg proxy = Inr cfg'"
  shows
    "(axios en (n_requests w) cfg' = Throws e1 \<and> axios en (n_requests w + 1) cfg' = Throws e2
        \<and> axios en (n_requests w + 2) cfg' = Throws e3 \<longrightarrow>
      makeRequest en cfg proxy 3 5000 w =
        (Inl e3, emits
           [Request cfg', Log Warning (RetryNotice 1 3 (MessageOf e1) 5000), Wait 5000,
            Request cfg', Log Warning (RetryNotice 2 3 (MessageOf e2) 5000), Wait 5000,
            Request cfg'] w))
     \<and> (axios en (n_requests w) cfg' = Responds r \<longrightarrow>
          makeRequest en cfg proxy 3 5000 w = (Inr r, emits [Request cfg'] w))
     \<and> (axios en (n_requests w) cfg' = Throws e1 \<and> axios en (n_requests w + 1) cfg' = Responds r
          \<longrightarrow>
          makeRequest en cfg proxy 3 5000 w =
            (Inr r, emits
               [Request cfg', Log Warning (RetryNotice 1 3 (MessageOf e1) 5000), Wait 5000,
                Request cfg'] w))
     \<and> (axios en (n_requests w) cfg' = Throws e1 \<and> axios en (n_requests w + 1) cfg' = Throws e2
          \<and> axios en (n_requests w + 2) cfg' = Responds r \<longrightarrow>
          makeRequest en cfg proxy 3 5000 w =
            (Inr r, emits
               [Request cfg', Log Warning (RetryNotice 1 3 (MessageOf e1) 5000), Wait 5000,
                Request cfg', Log Warning (RetryNotice 2 3 (MessageOf e2) 5000), Wait 5000,
                Request cfg'] w))"
  by (simp add: request_unrolled [OF assms])

text \<open>The four cases against the server whose first five calls time out, started after
  0, 5, 4 and 3 earlier calls: the error of the third attempt after three requests, and
  the response after one, two and three requests.\<close>

theorem makeRequest_three_attempts_witness:
  "fst (makeRequest (env_of flaky) (api_request ''get'' quests_list_url (JStr ''t'') JUndefined)
          None 3 5000 fresh) = Inl (AxiosError ''timeout 2'')
   \<and> requests_of (events (snd (makeRequest (env_of flaky)
          (api_request ''get'' quests_list_url (JStr ''t'') JUndefined) None 3 5000 fresh)))
       = replicate 3 (api_request ''get'' quests_list_url (JStr ''t'') JUndefined)
   \<and> fst (makeRequest (env_of flaky) (api_request ''get'' quests_list_url (JStr ''t'') JUndefined)
          None 3 5000
          (emits (replicate 5 (Request (api_request ''get'' quests_list_url (JStr ''t'')
             JUndefined))) fresh))
       = Inr (http_200 (JObj [(''success'', JBool True)]))
   \<and> requests_of (events (snd (makeRequest (env_of flaky)
          (api_request ''get'' quests_list_url (JStr ''t'') JUndefined) None 3 5000
          (emits (replicate 5 (Request (api_request ''get'' quests_list_url (JStr ''t'')
             JUndefined))) fresh))))
       = replicate 6 (api_request ''get'' quests_list_url (JStr ''t'') JUndefined)
   \<and> fst (makeRequest (env_of flaky) (api_request ''get'' quests_list_url (JStr ''t'') JUndefined)
          None 3 5000
          (emits (replicate 4 (Request (api_request ''get'' quests_list_url (JStr ''t'')
             JUndefined))) fresh))
       = Inr (http_200 (JObj [(''success'', JBool True)]))
   \<and> requests_of (events (snd (makeRequest (env_of flaky)
          (api_request ''get'' quests_list_url (JStr ''t'') JUndefined) None 3 5000
          (emits (replicate 4 (Request (api_request ''get'' quests_list_url (JStr ''t'')
             JUndefined))) fresh))))
       = replicate 6 (api_request ''get'' quests_list_url (JStr ''t'') JUndefined)
   \<and> fst (makeRequest (env_of flaky) (api_request ''get'' quests_list_url (JStr ''t'') JUndefined)
          None 3 5000
          (emits (replicate 3 (Request (api_request ''get'' quests_list_url (JStr ''t'')
             JUndefined))) fresh))
       = Inr (http_200 (JObj [(''success'', JBool True)]))
   \<and> requests_of (events (snd (makeRequest (env_of flaky)
          (api_request ''get'' quests_list_url (JStr ''t'') JUndefined) None 3 5000
          (emits (replicate 3 (Request (api_request ''get'' quests_list_url (JStr ''t'')
             JUndefined))) fresh))))
       = replicate 6 (api_request ''get'' quests_list_url (JStr ''t'') JUndefined)"
proof -
  let ?c = "api_request ''get'' quests_list_url (JStr ''t'') JUndefined"
  let ?ok = "http_200 (JObj [(''success'', JBool True)])"
  let ?w = "\<lambda>k. emits (replicate k (Request ?c)) fresh"
  have a: "attach_agent (env_of flaky) ?c None = Inr ?c"
    by (simp add: attach_agent_def)
  have n: "n_requests fresh = 0" "n_requests (?w 5) = 5" "n_requests (?w 4) = 4"
    "n_requests (?w 3) = 3"
    by (simp_all add: n_requests_def fresh_def emits_def)
  have t0: "axios (env_of flaky) (n_requests fresh) ?c = Throws (AxiosError ''timeout 0'')"
    "axios (env_of flaky) (n_requests fresh + 1) ?c = Throws (AxiosError ''timeout 1'')"
    "axios (env_of flaky) (n_requests fresh + 2) ?c = Throws (AxiosError ''timeout 2'')"
    unfolding n by code_simp+
  have t5: "axios (env_of flaky) (n_requests (?w 5)) ?c = Responds ?ok"
    unfolding n by code_simp
  have t4: "axios (env_of flaky) (n_requests (?w 4)) ?c = Throws (AxiosError ''timeout 4'')"
    "axios (env_of flaky) (n_requests (?w 4) + 1) ?c = Responds ?ok"
    unfolding n by code_simp+
  have t3: "axios (env_of flaky) (n_requests (?w 3)) ?c = Throws (AxiosError ''timeout 3'')"
    "axios (env_of flaky) (n_requests (?w 3) + 1) ?c = Throws (AxiosError ''timeout 4'')"
    "axios (env_of flaky) (n_requests (?w 3) + 2) ?c = Responds ?ok"
    unfolding n by code_simp+
  from makeRequest_three_attempts [OF a, of fresh "AxiosError ''timeout 0''"
      "AxiosError ''timeout 1''" "AxiosError ''timeout 2''"] t0
  have c0: "makeRequest (env_of flaky) ?c None 3 5000 fresh =
      (Inl (AxiosError ''timeout 2''), emits
         [Request ?c, Log Warning (RetryNotice 1 3 (MessageOf (AxiosError ''timeout 0'')) 5000),
          Wait 5000,
          Request ?c, Log Warning (RetryNotice 2 3 (MessageOf (AxiosError ''timeout 1'')) 5000),
          Wait 5000, Request ?c] fresh)"
    by simp
  from makeRequest_three_attempts [OF a, of "?w 5" _ _ _ ?ok] t5
  have c5: "makeRequest (env_of flaky) ?c None 3 5000 (?w 5) = (Inr ?ok, emits [Request ?c] (?w 5))"
    by simp
  from makeRequest_three_attempts [OF a, of "?w 4" "AxiosError ''timeout 4''" _ _ ?ok] t4
  have c4: "makeRequest (env_of flaky) ?c None 3 5000 (?w 4) =
      (Inr ?ok, emits
         [Request ?c, Log Warning (RetryNotice 1 3 (MessageOf (AxiosError ''timeout 4'')) 5000),
          Wait 5000, Request ?c] (?w 4))"
    by simp
  from makeRequest_three_attempts [OF a, of "?w 3" "AxiosError ''timeout 3''"
      "AxiosError ''timeout 4''" _ ?ok] t3
  have c3: "makeRequest (env_of flaky) ?c None 3 5000 (?w 3) =
      (Inr ?ok, emits
         [Request ?c, Log Warning (RetryNotice 1 3 (MessageOf (AxiosError ''timeout 3'')) 5000),
          Wait 5000,
          Request ?c, Log Warning (RetryNotice 2 3 (MessageOf (AxiosError ''timeout 4'')) 5000),
          Wait 5000, Request ?c] (?w 3))"
    by simp
  have f: "events fresh = []"
    by (simp add: fresh_def)
  have r: "replicate 6 ?c = [?c, ?c, ?c, ?c, ?c, ?c]" "replicate 3 ?c = [?c, ?c, ?c]"
    by (simp_all add: eval_nat_numeral)
  show ?thesis
    unfolding c0 c5 c4 c3
    by (simp add: events_emits emits_emits f requests_of_append requests_of_replicate r
        eval_nat_numeral)
qed

section \<open>The quest engine\<close>

text \<open>What one \<open>request\<close> without a proxy adds to the world: between one and three
  copies of the request, and no other request.\<close>

lemma request_adds:
  assumes "request en cfg None w = (r, w')"
  shows "\<exists>es n. w' = emits es w \<and> 1 \<le> n \<and> n \<le> 3 \<and> requests_of es = replicate n cfg"
proof -
  have a: "attach_agent en cfg None = Inr cfg"
    by (simp add: attach_agent_def)
  have r3: "replicate 3 cfg = [cfg, cfg, cfg]" "replicate 2 cfg = [cfg, cfg]"
    by (simp_all add: numeral_3_eq_3 numeral_2_eq_2)
  show ?thesis
  proof (cases "axios en (n_requests w) cfg")
    case (Responds r1)
    with assms a have "w' = emits [Request cfg] w"
      by (simp add: request_def request_unrolled)
    then show ?thesis
      by (intro exI [of _ "[Request cfg]"] exI [of _ 1]) simp
  next
    case t1: (Throws e1)
    show ?thesis
    proof (cases "axios en (n_requests w + 1) cfg")
      case (Responds r2)
      with assms a t1 have "w' = emits
          [Request cfg, Log Warning (RetryNotice 1 3 (MessageOf e1) 5000), Wait 5000,
           Request cfg] w"
        by (simp add: request_def request_unrolled)
      then show ?thesis
        by (intro exI [of _ "[Request cfg, Log Warning (RetryNotice 1 3 (MessageOf e1) 5000),
              Wait 5000, Request cfg]"] exI [of _ 2]) (simp add: r3)
    next
      case t2: (Throws e2)
      with assms a t1 have "w' = emits
          [Request cfg, Log Warning (RetryNotice 1 3 (MessageOf e1) 5000), Wait 5000,
           Request cfg, Log Warning (RetryNotice 2 3 (MessageOf e2) 5000), Wait 5000,
           Request cfg] w"
        by (auto simp: request_def request_unrolled split: http_outcome.splits)
      then show ?thesis
        by (intro exI [of _ "[Request cfg, Log Warning (RetryNotice 1 3 (MessageOf e1) 5000),
              Wait 5000, Request cfg, Log Warning (RetryNotice 2 3 (MessageOf e2) 5000),
              Wait 5000, Request cfg]"] exI [of _ 3]) (simp add: r3)
    qed
  qed
qed

text \<open>One \<open>claimQuest\<close> without a proxy sends its claim request between one and three
  times (the retries of one call) and sends nothing else.\<close>

lemma claimQuest_adds:
  "\<exists>es n. snd (claimQuest en token questId questData None w) = emits es w \<and> 1 \<le> n \<and> n \<le> 3
     \<and> requests_of es = replicate n (api_request ''post'' claim_url token (quest_body questId))"
proof -
  obtain r w1 where rq:
    "request en (api_request ''post'' claim_url token (quest_body questId)) None w = (r, w1)"
    by (cases "request en (api_request ''post'' claim_url token (quest_body questId)) None w")
  from request_adds [OF rq] obtain es n where es:
    "w1 = emits es w" "1 \<le> n" "n \<le> 3"
    "requests_of es = replicate n (api_request ''post'' claim_url token (quest_body questId))"
    by blast
  have "snd (claimQuest en token questId questData None w) = w1
      \<or> (\<exists>t a. snd (claimQuest en token questId questData None w)
            = emits [Log Success (TaskDone t a)] w1)"
    using rq
    by (auto simp: claimQuest_def world_simps split: sum.splits prod.splits)
  then show ?thesis
  proof
    assume "snd (claimQuest en token questId questData None w) = w1"
    with es show ?thesis by blast
  next
    assume "\<exists>t a. snd (claimQuest en token questId questData None w)
        = emits [Log Success (TaskDone t a)] w1"
    then obtain t a where
      "snd (claimQuest en token questId questData None w) = emits [Log Success (TaskDone t a)] w1"
      by blast
    with es have "snd (claimQuest en token questId questData None w)
        = emits (es @ [Log Success (TaskDone t a)]) w"
      by (simp add: emits_emits)
    moreover have "requests_of (es @ [Log Success (TaskDone t a)])
        = replicate n (api_request ''post'' claim_url token (quest_body questId))"
      using es by (simp add: requests_of_append)
    ultimately show ?thesis using es by blast
  qed
qed

text \<open>
  Claim C8, as amended. When the claim request is answered at all (whatever the status
  and the body of the response) and the supplied quest data has a first reward entry
  (\<^verbatim>\<open>questData.rewards[0]\<close> is not \<^verbatim>\<open>undefined\<close> or \<^verbatim>\<open>null\<close>), \<open>claimQuest\<close> returns
  success and logs that entry's amount as the reward.
\<close>

theorem claimQuest_any_response:
  assumes "request en (api_request ''post'' claim_url token (quest_body questId)) proxy w
             = (Inr response, w1)"
    and "truthy response"
    and "get_prop questData ''rewards'' = Inr rewards"
    and "get_index rewards 0 = Inr first"
    and "get_prop first ''amount'' = Inr reward"
  shows "claimQuest en token questId questData proxy w =
           (Succeeded JUndefined,
            log_line Success (TaskDone (field questData ''title'') reward) w1)"
  using assms
  by (cases questData) (simp_all add: claimQuest_def bind_e_def field_def)


text \<open>C8 at a quest that carries one reward of 100, against the server that accepts
  everything.\<close>

theorem claimQuest_any_response_witness:
  "claimQuest (env_of agreeable) (JStr ''t'') (JStr ''q1'')
      (quest_of ''q1'' ''First'' ''daily'' False ''active'' [JObj [(''amount'', JNum 100)]])
      None fresh
    = (Succeeded JUndefined,
       emits [Request (api_request ''post'' claim_url (JStr ''t'') (quest_body (JStr ''q1''))),
              Log Success (TaskDone (JStr ''First'') (JNum 100))] fresh)"
proof -
  let ?q = "quest_of ''q1'' ''First'' ''daily'' False ''active'' [JObj [(''amount'', JNum 100)]]"
  let ?r = "http_200 (JObj [(''success'', JBool True)])"
  let ?c = "api_request ''post'' claim_url (JStr ''t'') (quest_body (JStr ''q1''))"
  have a: "request (env_of agreeable) ?c None fresh = (Inr ?r, emits [Request ?c] fresh)"
    by (simp add: request_def request_unrolled attach_agent_def env_of_def agreeable_def)
  have b: "truthy ?r" by (simp add: http_200_def)
  have c: "get_prop ?q ''rewards'' = Inr (JArr [JObj [(''amount'', JNum 100)]])"
    by (simp add: quest_of_def)
  have d: "get_index (JArr [JObj [(''amount'', JNum 100)]]) 0 = Inr (JObj [(''amount'', JNum 100)])"
    by simp
  have e: "get_prop (JObj [(''amount'', JNum 100)]) ''amount'' = Inr (JNum 100)"
    by simp
  have f: "field ?q ''title'' = JStr ''First''"
    by (simp add: field_def quest_of_def)
  from claimQuest_any_response [OF a b c d e] f show ?thesis
    by (simp add: world_simps)
qed

text \<open>
  Claim C8 as it was stated (every answered claim request is reported as success) fails
  for quest data with an empty reward list: the request is answered, reading
  \<^verbatim>\<open>rewards[0].amount\<close> throws inside the \<^verbatim>\<open>try\<close> block, and the result is a failure.
\<close>

theorem claimQuest_empty_rewards:
  "fst (claimQuest (env_of agreeable) (JStr ''t'') (JStr ''q1'')
          (quest_of ''q1'' ''First'' ''daily'' False ''active'' []) None fresh)
     = Failed (MessageOf TypeError)
   \<and> events (snd (claimQuest (env_of agreeable) (JStr ''t'') (JStr ''q1'')
          (quest_of ''q1'' ''First'' ''daily'' False ''active'' []) None fresh))
     = [Request (api_request ''post'' claim_url (JStr ''t'') (quest_body (JStr ''q1'')))]
   \<and> agreeable 0 (api_request ''post'' claim_url (JStr ''t'') (quest_body (JStr ''q1'')))
     = Responds (http_200 (JObj [(''success'', JBool True)]))"
  by code_simp

text \<open>
  Claim C6. When the completion request comes back with status 200 or 201 and the body
  \<^verbatim>\<open>{ success: false, data: true }\<close>, \<open>completeQuest\<close> returns nothing and does just
  this: it logs the quest as in progress and calls \<open>claimQuest\<close> once, for the same
  quest id, with the made-up quest object, whose reward amount is 0. All requests after
  the completion response are attempts of that one claim call; no completion request is
  sent again.
\<close>

theorem completeQuest_claims_directly:
  assumes "request en (api_request ''post'' completed_url token (quest_body questId)) proxy w
             = (Inr response, w1)"
    and "get_prop response ''status'' = Inr status"
    and "status = JNum 200 \<or> status = JNum 201"
    and "get_prop response ''data'' = Inr body"
    and "get_prop body ''success'' = Inr (JBool False)"
    and "get_prop body ''data'' = Inr (JBool True)"
  shows "completeQuest en token questId proxy w =
           (None, snd (claimQuest en token questId (placeholder_quest en questId) None
                         (log_line Info (QuestInProgress questId) w1)))
    \<and> bind_e (get_prop (placeholder_quest en questId) ''rewards'') (\<lambda>rewards.
       bind_e (get_index rewards 0) (\<lambda>first. get_prop first ''amount'')) = Inr (JNum 0)
    \<and> (\<exists>es n. snd (completeQuest en token questId proxy w)
                = emits (Log Info (QuestInProgress questId) # es) w1
          \<and> 1 \<le> n \<and> n \<le> 3
          \<and> requests_of es
              = replicate n (api_request ''post'' claim_url token (quest_body questId)))"
proof -
  have eq: "completeQuest en token questId proxy w =
           (None, snd (claimQuest en token questId (placeholder_quest en questId) None
                         (log_line Info (QuestInProgress questId) w1)))"
    using assms by (auto simp: completeQuest_def bind_e_def)
  have zero: "bind_e (get_prop (placeholder_quest en questId) ''rewards'') (\<lambda>rewards.
       bind_e (get_index rewards 0) (\<lambda>first. get_prop first ''amount'')) = Inr (JNum 0)"
    by (simp add: placeholder_quest_def bind_e_def)
  from claimQuest_adds [of en token questId "placeholder_quest en questId"
      "log_line Info (QuestInProgress questId) w1"]
  obtain es n where es:
    "snd (claimQuest en token questId (placeholder_quest en questId) None
            (log_line Info (QuestInProgress questId) w1))
       = emits es (log_line Info (QuestInProgress questId) w1)"
    "1 \<le> n" "n \<le> 3"
    "requests_of es = replicate n (api_request ''post'' claim_url token (quest_body questId))"
    by blast
  have "snd (completeQuest en token questId proxy w)
      = emits (Log Info (QuestInProgress questId) # es) w1"
    using eq es(1) by (simp add: world_simps)
  with es eq zero show ?thesis by blast
qed


text \<open>C6 against the server that answers every completion with
  \<^verbatim>\<open>{ success: false, data: true }\<close>: one completion request, then one claim request
  for the same quest, reported with reward 0.\<close>

theorem completeQuest_claims_directly_witness:
  "fst (completeQuest (env_of already_done) (JStr ''t'') (JStr ''q1'') None fresh) = None
   \<and> events (snd (completeQuest (env_of already_done) (JStr ''t'') (JStr ''q1'') None fresh))
     = [Request (api_request ''post'' completed_url (JStr ''t'') (quest_body (JStr ''q1''))),
        Log Info (QuestInProgress (JStr ''q1'')),
        Request (api_request ''post'' claim_url (JStr ''t'') (quest_body (JStr ''q1''))),
        Log Success (TaskDone (JStr ''Quest q1'') (JNum 0))]"
proof -
  let ?c = "api_request ''post'' completed_url (JStr ''t'') (quest_body (JStr ''q1''))"
  let ?body = "JObj [(''success'', JBool False), (''data'', JBool True)]"
  have a: "request (env_of already_done) ?c None fresh
      = (Inr (http_200 ?body), emits [Request ?c] fresh)"
    by (simp add: request_def request_unrolled attach_agent_def env_of_def already_done_def
        api_request_def)
  have b: "get_prop (http_200 ?body) ''status'' = Inr (JNum 200)"
    and c: "JNum 200 = JNum 200 \<or> JNum 200 = JNum 201"
    and d: "get_prop (http_200 ?body) ''data'' = Inr ?body"
    and e: "get_prop ?body ''success'' = Inr (JBool False)"
    and f: "get_prop ?body ''data'' = Inr (JBool True)"
    by (simp_all add: http_200_def)
  have g: "events (snd (claimQuest (env_of already_done) (JStr ''t'') (JStr ''q1'')
        (placeholder_quest (env_of already_done) (JStr ''q1'')) None
        (log_line Info (QuestInProgress (JStr ''q1'')) (emits [Request ?c] fresh))))
     = [Request ?c, Log Info (QuestInProgress (JStr ''q1'')),
        Request (api_request ''post'' claim_url (JStr ''t'') (quest_body (JStr ''q1''))),
        Log Success (TaskDone (JStr ''Quest q1'') (JNum 0))]"
    by code_simp
  from completeQuest_claims_directly [OF a b c d e f] g show ?thesis
    by simp
qed

text \<open>When \<open>completeQuest\<close> returns nothing, \<open>processQuests\<close> leaves its loop with a
  TypeError, whatever quests remain.\<close>

lemma processQuests_loop_undefined:
  assumes "get_prop quest ''title'' = Inr title"
    and "get_prop quest ''_id'' = Inr qid"
    and "completeQuest en token qid proxy (log_line Info (ProcessingTask title) w) = (None, w2)"
  shows "processQuests_loop en token proxy (quest # rest) w = (Some TypeError, w2)"
  using assms by (simp add: bind_e_def)

text \<open>When \<open>completeQuest\<close> returns a failure object, the loop logs it and goes on with
  the remaining quests.\<close>

lemma processQuests_loop_failed:
  assumes "get_prop quest ''title'' = Inr title"
    and "get_prop quest ''_id'' = Inr qid"
    and "completeQuest en token qid proxy (log_line Info (ProcessingTask title) w)
           = (Some (Failed err), w2)"
  shows "processQuests_loop en token proxy (quest # rest) w =
           processQuests_loop en token proxy rest
             (log_line Error (CompleteTaskError title err) w2)"
  using assms by (simp add: bind_e_def)

text \<open>
  Claim C2 says that a completion response with \<^verbatim>\<open>success: false\<close> and boolean data
  does not stop the batch. Here the server lists two unclaimed quests and answers the
  first completion with status 200 and \<^verbatim>\<open>{ success: false, data: false }\<close>: the run
  ends with the error of the outer \<^verbatim>\<open>catch\<close>, and nothing is done for the second quest.
\<close>

theorem processQuests_stops_at_unqualified:
  "events (processQuests (env_of unqualified) (JStr ''t'') None fresh) =
     [Request (api_request ''get'' quests_list_url (JStr ''t'') JUndefined),
      Log Info (ProcessingTask (JStr ''First'')),
      Request (api_request ''post'' completed_url (JStr ''t'') (quest_body (JStr ''q1''))),
      Log Warning (NotQualified (JStr ''q1'')),
      Log Error (ProcessTaskError (MessageOf TypeError))]"
  by code_simp

section \<open>The seasonal filter\<close>

text \<open>On a quest whose code is a string and whose progress is an object the callback
  never throws, and it says what the rule in the specification's words says.\<close>

lemma christmas_filter_shaped:
  assumes "well_shaped quest"
  shows "christmas_filter quest = Inr (seasonal_spec quest)"
  using assms
  by (auto simp: well_shaped_def seasonal_spec_def quest_shape_def christmas_filter_def
      bind_e_def startsWith_def slice_def field_def
      split: sum.splits jsval.splits option.splits)

lemma filter_e_shaped:
  "list_all well_shaped quests \<Longrightarrow>
   filter_e christmas_filter quests = Inr (filter seasonal_spec quests)"
  by (induction quests) (simp_all add: christmas_filter_shaped)

lemma quest_of_shape:
  "quest_shape (quest_of qid title code claimed status rewards) =
     Some (code, JBool claimed, JStr status)"
  by (simp add: quest_shape_def quest_of_def field_def)

text \<open>
  Claim C1, as amended. For a seasonal list response (status 200, truthy
  \<^verbatim>\<open>success\<close>, an array of quests that each have a string code and an object
  progress), the quests kept are exactly those, in order, whose code starts with
  \<^verbatim>\<open>christmas\<close>, for which \<^verbatim>\<open>parseInt\<close> of the text after these nine characters is a
  number that is at most 6, whose progress is not claimed and whose status is not
  \<^verbatim>\<open>finished\<close>. An unclaimed, active quest with code \<^verbatim>\<open>christmas_007\<close> is not kept,
  one with code \<^verbatim>\<open>christmas_003\<close> is not kept either (the text \<^verbatim>\<open>_003\<close> does not
  start with a number), and one with code \<^verbatim>\<open>christmas3\<close> is kept.
\<close>

theorem seasonal_filter_keeps:
  assumes "get_prop response ''status'' = Inr (JNum 200)"
    and "get_prop response ''data'' = Inr body"
    and "get_prop body ''success'' = Inr success"
    and "truthy success"
    and "get_prop body ''data'' = Inr (JArr quests)"
    and "list_all well_shaped quests"
  shows "getChristmasQuests_body response = Inr (Succeeded (JArr (filter seasonal_spec quests)))
    \<and> \<not> seasonal_spec (quest_of qid title ''christmas_007'' False ''active'' rewards)
    \<and> \<not> seasonal_spec (quest_of qid title ''christmas_003'' False ''active'' rewards)
    \<and> seasonal_spec (quest_of qid title ''christmas3'' False ''active'' rewards)"
proof -
  have "getChristmasQuests_body response = Inr (Succeeded (JArr (filter seasonal_spec quests)))"
    using assms
    by (simp add: getChristmasQuests_body_def bind_e_def array_filter_def filter_e_shaped)
  moreover have "parseInt ''_007'' = None" "parseInt ''_003'' = None" "parseInt ''3'' = Some 3"
    by code_simp+
  ultimately show ?thesis
    by (simp add: seasonal_spec_def quest_of_shape at_most_6_def)
qed


text \<open>C1 at a list of three unclaimed, active quests with the codes
  \<^verbatim>\<open>christmas_003\<close>, \<^verbatim>\<open>christmas_007\<close> and \<^verbatim>\<open>christmas3\<close>: only the last is kept.\<close>

theorem seasonal_filter_keeps_witness:
  "getChristmasQuests_body
     (http_200 (JObj [(''success'', JBool True), (''data'', JArr seasonal_list)]))
     = Inr (Succeeded (JArr [quest_of ''c3'' ''Gift three'' ''christmas3'' False ''active'' []]))"
proof -
  let ?body = "JObj [(''success'', JBool True), (''data'', JArr seasonal_list)]"
  have a: "get_prop (http_200 ?body) ''status'' = Inr (JNum 200)"
    and b: "get_prop (http_200 ?body) ''data'' = Inr ?body"
    by (simp_all add: http_200_def)
  have c: "get_prop ?body ''success'' = Inr (JBool True)"
    and d: "truthy (JBool True)"
    and e: "get_prop ?body ''data'' = Inr (JArr seasonal_list)"
    by simp_all
  have f: "list_all well_shaped seasonal_list"
    by (simp add: seasonal_list_def well_shaped_def quest_of_shape)
  have g: "filter seasonal_spec seasonal_list
      = [quest_of ''c3'' ''Gift three'' ''christmas3'' False ''active'' []]"
    using seasonal_filter_keeps [OF a b c d e f]
    by (simp add: seasonal_list_def)
  from seasonal_filter_keeps [OF a b c d e f] g show ?thesis
    by simp
qed

text \<open>
  Claim C1 as it was stated has the unclaimed, active quest with code
  \<^verbatim>\<open>christmas_003\<close> kept. The code drops it: \<^verbatim>\<open>'christmas_003'.slice(9)\<close> is
  \<^verbatim>\<open>_003\<close>, \<^verbatim>\<open>parseInt\<close> of that is \<^verbatim>\<open>NaN\<close>, and \<^verbatim>\<open>NaN <= 6\<close> is false.
\<close>

theorem christmas_003_not_kept:
  "slice (JStr ''christmas_003'') 9 = Inr ''_003''
   \<and> parseInt ''_003'' = None
   \<and> christmas_filter (quest_of ''c1'' ''Third gift'' ''christmas_003'' False ''active'' [])
       = Inr False
   \<and> fst (getChristmasQuests (env_of seasonal_server) (JStr ''t'') None fresh)
       = Succeeded (JArr [quest_of ''c3'' ''Gift three'' ''christmas3'' False ''active'' []])"
  by code_simp

section \<open>Token expiry\<close>

text \<open>A token whose payload carries a number other than 0 under \<^verbatim>\<open>exp\<close> is expired
  exactly when the whole seconds of the clock are greater than that number.\<close>

lemma isExpired_nonzero_exp:
  assumes "split ''.'' token = header # payload # sign"
    and "JSON_parse (base64_toString payload) = Some parsedPayload"
    and "get_prop parsedPayload ''exp'' = Inr (JNum secs)"
    and "secs \<noteq> 0"
  shows "isExpired nowMs token = Inr (of_int (nowMs div 1000) > secs)"
  using assms
  by (simp add: isExpired_def isExpired_try_def bind_e_def fromSeconds_def)

text \<open>
  Claim C3 says that a token whose payload carries \<^verbatim>\<open>exp\<close> in the past is expired.
  Here the payload is \<^verbatim>\<open>{"exp":0}\<close>, the first second of 1970, and the clock reads
  1700000000 seconds: \<^verbatim>\<open>if (parsedPayload.exp)\<close> takes the number 0 for a missing
  field, and the answer is "not expired".
\<close>

theorem isExpired_exp_zero:
  "JSON_parse (base64_toString ''eyJleHAiOjB9'') = Some (JObj [(''exp'', JNum 0)])
   \<and> isExpired 1700000000000 ''eyJhbGciOiJIUzI1NiJ9.eyJleHAiOjB9.c2ln'' = Inr False"
  by code_simp





text \<open>A text without the separator is one piece.\<close>

lemma split_from_no_sep:
  "c \<notin> set s \<Longrightarrow> split_from [c] acc s = [rev acc @ s]"
  by (induction s arbitrary: acc) auto

text \<open>
  Claim C9. For a token with no dot in it there is no second piece; decoding
  \<^verbatim>\<open>undefined\<close> throws before the \<^verbatim>\<open>try\<close> block is entered, and \<open>isExpired\<close> throws a
  TypeError to its caller instead of returning a boolean.
\<close>

theorem isExpired_throws_without_dot:
  assumes "CHR ''.'' \<notin> set token"
  shows "isExpired nowMs token = Inl TypeError"
  using assms by (simp add: isExpired_def split_def split_from_no_sep)


text \<open>C9 at the token \<^verbatim>\<open>not-a-token\<close>.\<close>

theorem isExpired_throws_without_dot_witness:
  "CHR ''.'' \<notin> set ''not-a-token'' \<and> isExpired 1700000000000 ''not-a-token'' = Inl TypeError"
proof -
  have a: "CHR ''.'' \<notin> set ''not-a-token''" by simp
  from isExpired_throws_without_dot [OF a, of 1700000000000] a show ?thesis by simp
qed

section \<open>The credential store and startup\<close>



text \<open>The pass over the account goes on with the new token after a failed write: for an
  account with no stored token, a successful login and a defined balance, the token of
  the login is the one to work with, and the store holds it.\<close>

lemma session_step_after_failed_write:
  assumes "tokens c (toStr en userId) = None"
    and "authenticate en initData proxy (log_line Warning (NeedNewToken (toStr en userId)) w)
           = (Succeeded authResult, w1)"
    and "writeFile en (n_writes w1) = Some err"
    and "deref (field authResult ''balance'') = Inr ()"
  shows "fst (session_step en initData userId walletAddress proxy c w)
           = Inr (Some (field authResult ''token''))
      \<and> tokens (fst (snd (session_step en initData userId walletAddress proxy c w)))
           (toStr en userId) = Some (field authResult ''token'')"
  using assms
  by (simp add: session_step_def saveToken_def Let_def)


text \<open>
  Claim C7. When the data file can be read and the wallet list is not as long as the
  data list (or, in \<^verbatim>\<open>paws-proxy.js\<close>, the proxy list is not), \<open>main\<close> ends the process
  with exit code 1 for any number of passes asked for; all it has done is to log one
  error: no prompt, no request, no account. The same holds for the whole program when
  these are the lists that the constructor loaded.
\<close>

theorem unequal_lists_exit:
  assumes "data_txt en = Content text"
    and "length (wallets c) \<noteq> length (read_lines text)
         \<or> (v = Proxy \<and> length (proxies c) \<noteq> length (read_lines text))"
  shows "fst (validateWalletFile v en c w) = Inr False
    \<and> (\<exists>m. main v en passes c w = (ProcessExit 1, c, emits [Log Error m] w))
    \<and> (new_client v en fresh = (c, w) \<longrightarrow>
         (\<exists>m. program v en passes = (ProcessExit 1, c, emits [Log Error m] w)))"
proof -
  have v: "fst (validateWalletFile v en c w) = Inr False"
    using assms by (auto simp: validateWalletFile_def Let_def)
  have m: "\<exists>m. main v en passes c w = (ProcessExit 1, c, emits [Log Error m] w)"
    using assms by (auto simp: main_def validateWalletFile_def world_simps Let_def)
  then obtain m where "main v en passes c w = (ProcessExit 1, c, emits [Log Error m] w)"
    by blast
  then have "new_client v en fresh = (c, w) \<longrightarrow>
      program v en passes = (ProcessExit 1, c, emits [Log Error m] w)"
    by (simp add: program_def fresh_def)
  with v m show ?thesis by blast
qed

text \<open>C7 with a wallet file of two lines and a data file of one line.\<close>

theorem unequal_lists_exit_witness:
  "fst (program Plain mismatched_env 3) = ProcessExit 1
   \<and> events (snd (snd (program Plain mismatched_env 3))) = [Log Error (WalletCountMismatch 2 1)]"
proof -
  let ?c = "\<lparr>tokens = Map.empty, wallets = [''UQwallet1'', ''UQwallet2''], proxies = []\<rparr>"
  have rl: "read_lines (''UQwallet1'' @ [CHR 0x0A] @ ''UQwallet2'' @ [CHR 0x0A])
      = [''UQwallet1'', ''UQwallet2'']"
    by code_simp
  have rd: "read_lines (''user=%7B%22id%22%3A1%7D'' @ [CHR 0x0A]) = [''user=%7B%22id%22%3A1%7D'']"
    by code_simp
  have a: "data_txt mismatched_env = Content (''user=%7B%22id%22%3A1%7D'' @ [CHR 0x0A])"
    by (simp add: mismatched_env_def)
  have b: "length (wallets ?c) \<noteq> length (read_lines (''user=%7B%22id%22%3A1%7D'' @ [CHR 0x0A]))
      \<or> (Plain = Proxy \<and> length (proxies ?c)
            \<noteq> length (read_lines (''user=%7B%22id%22%3A1%7D'' @ [CHR 0x0A])))"
    by code_simp
  have c: "new_client Plain mismatched_env fresh = (?c, fresh)"
  proof -
    have "wallet_txt mismatched_env = Content (''UQwallet1'' @ [CHR 0x0A] @ ''UQwallet2'' @ [CHR 0x0A])"
      "token_store mismatched_env = NoTokenFile"
      by (simp_all add: mismatched_env_def env_of_def)
    then show ?thesis
      by (simp add: new_client_def loadTokens_def loadWallets_def rl del: append.simps)
  qed
  from unequal_lists_exit [OF a b, where passes = 3 and w = fresh] c
  obtain m where p: "program Plain mismatched_env 3 = (ProcessExit 1, ?c, emits [Log Error m] fresh)"
    by blast
  have "events (snd (snd (program Plain mismatched_env 3))) = [Log Error (WalletCountMismatch 2 1)]"
    by code_simp
  with p show ?thesis by simp
qed


end
